theory Spec2Isabelle
  imports Main "HOL-Library.Word" "HOL-Library.Sublist"
begin

section \<open>GCL::sqlWriter: data model\<close>

text \<open>
  The class \<open>sqlWriter\<close> of \<open>source/SQLWriter.cpp\<close> composes SQL statements from clause
  fragments. Its declaration (\<open>include/SQLWriter.h\<close>) and the error macros
  (\<open>include/error.h\<close>) are not part of the sources at hand; the types below are
  read off the way the member functions use them.
\<close>

text \<open>Modelled from the spec: the dialect enumeration is declared in the absent header; the
  glossary names the three variants MySQL, Microsoft and PostgreSQL, the source uses the
  enumerators \<open>MYSQL\<close>, \<open>MICROSOFT\<close> and \<open>POSTGRE\<close>.\<close>
datatype EDialect = MYSQL | MICROSOFT | POSTGRE

text \<open>Modelled from the spec: the query kinds None, Select, Insert, Update, Delete and Upsert,
  under the enumerator names of the source.\<close>
datatype EQueryType = qt_none | qt_select | qt_insert | qt_delete | qt_update | qt_upsert

text \<open>The two directions that \<open>createOrderByClause\<close> tests for.\<close>
datatype EOrderBy = ASC | DESC

text \<open>Modelled from the spec: join kinds Left, Right, Inner and Full.\<close>
datatype EJoin = JOIN_LEFT | JOIN_RIGHT | JOIN_INNER | JOIN_FULL

text \<open>Modelled from the spec: a parameter is a tagged value, Integer, Real, Boolean, Text or
  BindPlaceholder. The source asks a parameter for its \<open>type()\<close> (is it a
  \<open>std::string\<close>, is it a \<open>bindValue\<close>) and for its \<open>to_string()\<close>. Floating-point
  formatting is outside the model, so a Real carries the text its \<open>to_string()\<close> yields.\<close>
datatype parameter =
    Integer int
  | Real string
  | Boolean bool
  | Text string
  | BindPlaceholder string

type_synonym parameterPair = "string \<times> parameter"
type_synonym parameterTriple = "string \<times> string \<times> parameter"
type_synonym parameterJoin = "string \<times> string \<times> EJoin \<times> string \<times> string"
type_synonym parameterStorage = "parameter list"

record SColumnData =
  columnName :: "string \<times> string"

record STableData =
  tableName :: "string \<times> string"
  columnData :: "string \<rightharpoonup> SColumnData"

text \<open>The data members of the class. The member \<open>distinct_\<close> is the field \<open>distinct_flag\<close>.\<close>
record sqlWriter =
  dialect :: EDialect
  queryType :: EQueryType
  selectFields :: "string list"
  fromFields :: "(string \<times> string) list"
  joinFields :: "parameterJoin list"
  whereFields :: "parameterTriple list"
  insertTable :: string
  valueFields :: "parameterStorage list"
  orderByFields :: "(string \<times> EOrderBy) list"
  limitValue :: "64 word option"
  offsetValue :: "64 word option"
  countValue :: "string option"
  distinct_flag :: bool
  maxFields :: "(string \<times> string) list"
  minFields :: "(string \<times> string) list"
  updateTable :: string
  deleteTable :: string
  setFields :: "parameterPair list"
  databaseMap :: "string \<rightharpoonup> STableData"

text \<open>Modelled from the spec: the constructor lives in the absent header; a builder is created
  empty, with query kind None. The dialect is the constructor's argument.\<close>
definition sqlWriter_new :: "EDialect \<Rightarrow> sqlWriter" where
  "sqlWriter_new d =
     \<lparr> dialect = d, queryType = qt_none, selectFields = [], fromFields = [], joinFields = [],
       whereFields = [], insertTable = [], valueFields = [], orderByFields = [],
       limitValue = None, offsetValue = None, countValue = None, distinct_flag = False,
       maxFields = [], minFields = [], updateTable = [], deleteTable = [], setFields = [],
       databaseMap = Map.empty \<rparr>"

subsection \<open>Errors\<close>

text \<open>The error codes the source passes to \<open>RUNTIME_ERROR\<close>.\<close>
datatype errorCode =
    E_SQLWRITER_SYNTAXERROR
  | E_SQLWRITER_INVALIDTABLENAME
  | E_SQLWRITER_INVALIDCOMMAND
  | E_SQLWRITER_UNKNOWNDIALECT
  | E_SQLWRITER_NOSELECTFIELDS
  | E_SQLWRITER_NOFROMFIELD

text \<open>Modelled from the spec: the macros \<open>RUNTIME_ERROR\<close>, \<open>RUNTIME_ASSERT\<close> and \<open>CODE_ERROR\<close>
  are the fail-fast error facility; each raises a typed failure that halts the operation.
  \<open>RUNTIME_ERROR\<close> is used with a message alone or with a message and an error code;
  \<open>RUNTIME_ASSERT\<close> raises when its condition is false.\<close>
datatype error =
    RUNTIME_ERROR string "errorCode option"
  | RUNTIME_ASSERT string
  | CODE_ERROR

subsection \<open>Decimal rendering (\<open>std::to_string\<close>)\<close>

definition digit_char :: "nat \<Rightarrow> char" where
  "digit_char d = ''0123456789'' ! (d mod 10)"

function decimal :: "nat \<Rightarrow> string" where
  "decimal n =
     (if n < 10 then [digit_char n] else decimal (n div 10) @ [digit_char (n mod 10)])"
  by pat_completeness auto
termination
  by (relation "measure id") auto

declare decimal.simps [simp del]

text \<open>\<open>std::to_string(std::uint64_t)\<close>.\<close>
definition to_string_u64 :: "64 word \<Rightarrow> string" where
  "to_string_u64 w = decimal (unat w)"

text \<open>\<open>std::to_string(int)\<close>, also used for Integer parameters.\<close>
definition to_string_int :: "int \<Rightarrow> string" where
  "to_string_int i = (if i < 0 then ''-'' @ decimal (nat (- i)) else decimal (nat i))"

text \<open>\<open>std::numeric_limits<std::uint64_t>::max()\<close>.\<close>
definition uint64_max :: "64 word" where
  "uint64_max = - 1"

text \<open>Modelled from the spec: \<open>parameter::to_string\<close> belongs to the absent value type. Text and
  bind placeholders yield their characters; a Boolean prints as in the example of the
  \<open>upsert\<close> documentation (\<open>set("Value", true)\<close> gives \<open>Value = true\<close>).\<close>
fun to_string :: "parameter \<Rightarrow> string" where
  "to_string (Integer i) = to_string_int i"
| "to_string (Real r) = r"
| "to_string (Boolean b) = (if b then ''true'' else ''false'')"
| "to_string (Text t) = t"
| "to_string (BindPlaceholder n) = n"

text \<open>\<open>p.type() == typeid(std::string)\<close> and \<open>p.type() == typeid(bindValue)\<close>.\<close>
fun is_string :: "parameter \<Rightarrow> bool" where
  "is_string (Text t) = True"
| "is_string p = False"

fun is_bindValue :: "parameter \<Rightarrow> bool" where
  "is_bindValue (BindPlaceholder n) = True"
| "is_bindValue p = False"

text \<open>\<open>std::string::front()\<close> is \<open>operator[](0)\<close>; on an empty string that position holds
  the terminating null character.\<close>
definition front :: "string \<Rightarrow> char" where
  "front s = (case s of [] \<Rightarrow> CHR 0x00 | c # cs \<Rightarrow> c)"

section \<open>The fluent mutators\<close>

definition resetQuery :: "sqlWriter \<Rightarrow> sqlWriter" where
  "resetQuery s =
     s\<lparr> selectFields := [], fromFields := [], whereFields := [], insertTable := [],
        valueFields := [], orderByFields := [], joinFields := [],
        limitValue := None, offsetValue := None, countValue := None, distinct_flag := False,
        maxFields := [], minFields := [], updateTable := [], setFields := [],
        queryType := qt_none \<rparr>"

definition resetWhere :: "sqlWriter \<Rightarrow> sqlWriter" where
  "resetWhere s = s\<lparr> whereFields := [] \<rparr>"

text \<open>\<open>select()\<close>.\<close>
definition select :: "sqlWriter \<Rightarrow> sqlWriter" where
  "select s = (let s1 = (if queryType s \<noteq> qt_none then resetQuery s else s)
               in s1\<lparr> queryType := qt_select \<rparr>)"

text \<open>\<open>select(fields)\<close>.\<close>
definition select_fields :: "string list \<Rightarrow> sqlWriter \<Rightarrow> sqlWriter" where
  "select_fields fieldList s = (let s1 = select s in s1\<lparr> selectFields := selectFields s1 @ fieldList \<rparr>)"

text \<open>\<open>select(tableName, fields)\<close>.\<close>
definition select_table_fields :: "string \<Rightarrow> string list \<Rightarrow> sqlWriter \<Rightarrow> sqlWriter" where
  "select_table_fields tblName fieldList s =
     (let s1 = select s
      in s1\<lparr> selectFields := selectFields s1 @ map (\<lambda>elem. tblName @ ''.'' @ elem) fieldList \<rparr>)"

definition deleteFrom :: "string \<Rightarrow> sqlWriter \<Rightarrow> sqlWriter" where
  "deleteFrom tblName s =
     (let s1 = (if queryType s \<noteq> qt_none then resetQuery s else s)
      in s1\<lparr> queryType := qt_delete, deleteTable := tblName \<rparr>)"

text \<open>\<open>insertInto(tableName)\<close>.\<close>
definition insertInto_table :: "string \<Rightarrow> sqlWriter \<Rightarrow> sqlWriter" where
  "insertInto_table tblName s =
     (let s1 = (if queryType s \<noteq> qt_none then resetQuery s else s)
      in s1\<lparr> queryType := qt_insert, insertTable := tblName \<rparr>)"

text \<open>\<open>insertInto(tableName, fields)\<close>.\<close>
definition insertInto :: "string \<Rightarrow> string list \<Rightarrow> sqlWriter \<Rightarrow> sqlWriter" where
  "insertInto tblName fieldList s =
     (let s1 = (if queryType s \<noteq> qt_none then resetQuery s else s);
          s2 = s1\<lparr> queryType := qt_insert, insertTable := tblName \<rparr>
      in s2\<lparr> selectFields := selectFields s2 @ fieldList \<rparr>)"

definition update :: "string \<Rightarrow> sqlWriter \<Rightarrow> sqlWriter" where
  "update tblName s =
     (let s1 = (if queryType s \<noteq> qt_none then resetQuery s else s)
      in s1\<lparr> queryType := qt_update, updateTable := tblName \<rparr>)"

definition upsert :: "string \<Rightarrow> sqlWriter \<Rightarrow> sqlWriter" where
  "upsert tblName s =
     (let s1 = (if queryType s \<noteq> qt_none then resetQuery s else s)
      in s1\<lparr> queryType := qt_upsert, insertTable := tblName \<rparr>)"

text \<open>\<open>from(fromString, alias)\<close> and \<open>from(fields)\<close>.\<close>
definition from_alias :: "string \<Rightarrow> string \<Rightarrow> sqlWriter \<Rightarrow> sqlWriter" where
  "from_alias fromString alias s = s\<lparr> fromFields := fromFields s @ [(fromString, alias)] \<rparr>"

definition from_list :: "string list \<Rightarrow> sqlWriter \<Rightarrow> sqlWriter" where
  "from_list fieldList s = s\<lparr> fromFields := fromFields s @ map (\<lambda>elem. (elem, [])) fieldList \<rparr>"

definition join_q :: "parameterJoin list \<Rightarrow> sqlWriter \<Rightarrow> sqlWriter" where
  "join_q fieldList s = s\<lparr> joinFields := joinFields s @ fieldList \<rparr>"

definition where_q :: "parameterTriple list \<Rightarrow> sqlWriter \<Rightarrow> sqlWriter" where
  "where_q fieldList s = s\<lparr> whereFields := whereFields s @ fieldList \<rparr>"

text \<open>\<open>set(columnName, value)\<close> and \<open>set(fields)\<close>.\<close>
definition set_value :: "string \<Rightarrow> parameter \<Rightarrow> sqlWriter \<Rightarrow> sqlWriter" where
  "set_value column v s = s\<lparr> setFields := setFields s @ [(column, v)] \<rparr>"

definition set_list :: "parameterPair list \<Rightarrow> sqlWriter \<Rightarrow> sqlWriter" where
  "set_list fieldList s = s\<lparr> setFields := setFields s @ fieldList \<rparr>"

definition values_q :: "parameterStorage list \<Rightarrow> sqlWriter \<Rightarrow> sqlWriter" where
  "values_q fieldList s = s\<lparr> valueFields := valueFields s @ fieldList \<rparr>"

definition orderBy :: "(string \<times> EOrderBy) list \<Rightarrow> sqlWriter \<Rightarrow> sqlWriter" where
  "orderBy fieldList s = s\<lparr> orderByFields := orderByFields s @ fieldList \<rparr>"

definition limit :: "64 word \<Rightarrow> sqlWriter \<Rightarrow> sqlWriter" where
  "limit n s = s\<lparr> limitValue := Some n \<rparr>"

definition offset :: "64 word \<Rightarrow> sqlWriter \<Rightarrow> sqlWriter" where
  "offset n s = s\<lparr> offsetValue := Some n \<rparr>"

definition distinct_set :: "sqlWriter \<Rightarrow> sqlWriter" where
  "distinct_set s = s\<lparr> distinct_flag := True \<rparr>"

definition count_q :: "string \<Rightarrow> sqlWriter \<Rightarrow> sqlWriter" where
  "count_q countExpression s = s\<lparr> countValue := Some countExpression \<rparr>"

definition max_q :: "string \<Rightarrow> string \<Rightarrow> sqlWriter \<Rightarrow> sqlWriter" where
  "max_q column as s = s\<lparr> maxFields := maxFields s @ [(column, as)] \<rparr>"

definition min_q :: "string \<Rightarrow> string \<Rightarrow> sqlWriter \<Rightarrow> sqlWriter" where
  "min_q column as s = s\<lparr> minFields := minFields s @ [(column, as)] \<rparr>"

definition verifyOperator :: "string \<Rightarrow> bool" where
  "verifyOperator oper =
     (oper = ''='' \<or> oper = ''<>'' \<or> oper = ''!='' \<or> oper = ''>'' \<or> oper = ''<'' \<or>
      oper = ''>='' \<or> oper = ''<='' \<or> oper = ''BETWEEN'' \<or> oper = ''LIKE'' \<or> oper = ''IN'')"

text \<open>The mapping lookups are not implemented: both return their argument.\<close>
definition getColumnMap :: "sqlWriter \<Rightarrow> string \<Rightarrow> string" where
  "getColumnMap s colName = colName"

definition getTableMap :: "sqlWriter \<Rightarrow> string \<Rightarrow> string" where
  "getTableMap s search = search"

section \<open>The clause renderers\<close>

text \<open>The single-quote character that encloses text values.\<close>
definition quote :: string where
  "quote = [CHR 0x27]"

subsection \<open>\<open>createWhereClause\<close>\<close>

text \<open>The body of the loop over \<open>whereFields\<close>; the loop state is \<open>first\<close> and
  \<open>returnValue\<close>.\<close>
fun whereLoop :: "sqlWriter \<Rightarrow> bool \<Rightarrow> string \<Rightarrow> parameterTriple list \<Rightarrow> string" where
  "whereLoop s first returnValue [] = returnValue"
| "whereLoop s first returnValue ((col, oper, v) # rest) =
     (let r1 = (if first then returnValue else returnValue @ '' AND '');
          r2 = r1 @ ''('' @ getColumnMap s col @ '' '' @ oper;
          r3 = (if is_string v then r2 @ '' '' @ quote @ to_string v @ quote @ '')''
                else r2 @ '' '' @ to_string v @ '')'')
      in whereLoop s False r3 rest)"

definition createWhereClause :: "sqlWriter \<Rightarrow> string" where
  "createWhereClause s = whereLoop s True '' WHERE '' (whereFields s)"

subsection \<open>\<open>createDeleteQuery\<close>\<close>

definition createDeleteQuery :: "sqlWriter \<Rightarrow> string" where
  "createDeleteQuery s = ''DELETE FROM '' @ getColumnMap s (deleteTable s) @ createWhereClause s"

subsection \<open>\<open>createInsertQuery\<close>\<close>

text \<open>The loop over \<open>selectFields\<close> that writes the column names.\<close>
fun insertColumnsLoop :: "bool \<Rightarrow> string \<Rightarrow> string list \<Rightarrow> string" where
  "insertColumnsLoop firstValue returnValue [] = returnValue"
| "insertColumnsLoop firstValue returnValue (element # rest) =
     (let r1 = (if firstValue then returnValue else returnValue @ '', '');
          colName = element
      in insertColumnsLoop False (r1 @ colName) rest)"

text \<open>The inner loop over the values of one row.\<close>
fun insertValuesLoop :: "bool \<Rightarrow> string \<Rightarrow> parameter list \<Rightarrow> string" where
  "insertValuesLoop firstValue returnValue [] = returnValue"
| "insertValuesLoop firstValue returnValue (innerElement # rest) =
     (let r1 = (if firstValue then returnValue else returnValue @ '', '');
          r2 = (if is_string innerElement then r1 @ quote @ to_string innerElement @ quote
                else if is_bindValue innerElement then
                  (let temp = to_string innerElement
                   in if front temp = CHR '':'' then r1 @ temp
                      else if front temp = CHR ''?'' then r1 @ temp
                      else r1 @ '':'' @ temp)
                else r1 @ to_string innerElement)
      in insertValuesLoop False r2 rest)"

text \<open>The outer loop over \<open>valueFields\<close>.\<close>
fun insertRowsLoop :: "bool \<Rightarrow> string \<Rightarrow> parameterStorage list \<Rightarrow> string" where
  "insertRowsLoop firstRow returnValue [] = returnValue"
| "insertRowsLoop firstRow returnValue (outerElement # rest) =
     (let r1 = (if firstRow then returnValue else returnValue @ '', '');
          r2 = r1 @ ''('';
          r3 = insertValuesLoop True r2 outerElement
      in insertRowsLoop False (r3 @ '')'') rest)"

definition createInsertQuery :: "sqlWriter \<Rightarrow> string" where
  "createInsertQuery s =
     (let r0 = ''INSERT INTO '' @ insertTable s @ ''('';
          r1 = insertColumnsLoop True r0 (selectFields s);
          r2 = r1 @ '') VALUES ''
      in insertRowsLoop True r2 (valueFields s))"

subsection \<open>\<open>createLimitClause\<close>\<close>

definition createLimitClause :: "sqlWriter \<Rightarrow> error + string" where
  "createLimitClause s =
     (case dialect s of
        MYSQL \<Rightarrow>
          (case offsetValue s of
             Some off \<Rightarrow>
               Inr (''LIMIT '' @ to_string_u64 off @ '', ''
                    @ to_string_u64 (case limitValue s of Some l \<Rightarrow> l | None \<Rightarrow> uint64_max)
                    @ '' '')
           | None \<Rightarrow>
               (case limitValue s of
                  Some l \<Rightarrow> Inr (''LIMIT '' @ to_string_u64 l @ '' '')
                | None \<Rightarrow> Inr []))
      | POSTGRE \<Rightarrow> Inr []
      | _ \<Rightarrow> Inl (RUNTIME_ERROR ''Unknown dialect'' (Some E_SQLWRITER_UNKNOWNDIALECT)))"

subsection \<open>\<open>createSetClause\<close> and \<open>createUpdateQuery\<close>\<close>

fun setLoop :: "bool \<Rightarrow> string \<Rightarrow> parameterPair list \<Rightarrow> string" where
  "setLoop firstValue returnValue [] = returnValue"
| "setLoop firstValue returnValue ((col, v) # rest) =
     (let r1 = (if firstValue then returnValue else returnValue @ '', '');
          r2 = r1 @ col @ '' = '';
          r3 = (if is_string v then r2 @ quote @ to_string v @ quote
                else if is_bindValue v then
                  (let temp = to_string v
                   in if front temp = CHR '':'' then r2 @ temp
                      else if front temp = CHR ''?'' then r2 @ temp
                      else r2 @ '':'' @ temp)
                else r2 @ to_string v)
      in setLoop False r3 rest)"

definition createSetClause :: "sqlWriter \<Rightarrow> error + string" where
  "createSetClause s =
     (if \<not> (setFields s \<noteq> []) then Inl (RUNTIME_ASSERT ''No Set fields defined for update query.'')
      else Inr (setLoop True ''SET '' (setFields s)))"

definition createUpdateQuery :: "sqlWriter \<Rightarrow> error + string" where
  "createUpdateQuery s =
     (let r0 = ''UPDATE '' @ updateTable s @ '' ''
      in case createSetClause s of
           Inl e \<Rightarrow> Inl e
         | Inr setClause \<Rightarrow> Inr (r0 @ setClause @ createWhereClause s))"

subsection \<open>\<open>createUpsertQuery\<close>\<close>

text \<open>The loops that collect the field names and field values of the insert part; the state
  \<open>(firstValue, fieldNames, fieldValues)\<close> runs through the where loop and then the set
  loop.\<close>
fun upsertWhereLoop ::
  "sqlWriter \<Rightarrow> bool \<times> string \<times> string \<Rightarrow> parameterTriple list \<Rightarrow> bool \<times> string \<times> string" where
  "upsertWhereLoop s st [] = st"
| "upsertWhereLoop s (firstValue, fieldNames, fieldValues) ((col, oper, v) # rest) =
     (let n1 = (if firstValue then fieldNames else fieldNames @ '', '');
          v1 = (if firstValue then fieldValues else fieldValues @ '', '');
          n2 = n1 @ getColumnMap s col;
          v2 = (if is_string v then v1 @ quote @ to_string v @ quote else v1 @ to_string v)
      in upsertWhereLoop s (False, n2, v2) rest)"

fun upsertSetLoop ::
  "sqlWriter \<Rightarrow> bool \<times> string \<times> string \<Rightarrow> parameterPair list \<Rightarrow> bool \<times> string \<times> string" where
  "upsertSetLoop s st [] = st"
| "upsertSetLoop s (firstValue, fieldNames, fieldValues) ((col, v) # rest) =
     (let n1 = (if firstValue then fieldNames else fieldNames @ '', '');
          v1 = (if firstValue then fieldValues else fieldValues @ '', '');
          n2 = n1 @ getColumnMap s col;
          v2 = (if is_string v then v1 @ quote @ to_string v @ quote else v1 @ to_string v)
      in upsertSetLoop s (False, n2, v2) rest)"

text \<open>The loop that writes the assignments after \<open>ON DUPLICATE KEY UPDATE\<close>.\<close>
fun upsertUpdateLoop :: "sqlWriter \<Rightarrow> bool \<Rightarrow> string \<Rightarrow> parameterPair list \<Rightarrow> string" where
  "upsertUpdateLoop s firstValue fieldValues [] = fieldValues"
| "upsertUpdateLoop s firstValue fieldValues ((col, v) # rest) =
     (let v1 = (if firstValue then fieldValues else fieldValues @ '', '');
          v2 = v1 @ getColumnMap s col @ '' = '';
          v3 = (if is_string v then v2 @ quote @ to_string v @ quote else v2 @ to_string v)
      in upsertUpdateLoop s False v3 rest)"

definition createUpsertQuery :: "sqlWriter \<Rightarrow> error + string" where
  "createUpsertQuery s =
     (if \<not> (dialect s = MYSQL) then Inl (RUNTIME_ASSERT ''Upsert only implemented for MYSQL.'')
      else
        (case dialect s of
           MYSQL \<Rightarrow>
             (let st1 = upsertWhereLoop s (True, [], []) (whereFields s);
                  (firstValue, fieldNames, fieldValues) = upsertSetLoop s st1 (setFields s);
                  r1 = ''INSERT INTO '' @ insertTable s @ ''('';
                  r2 = r1 @ fieldNames @ '') VALUES ('';
                  r3 = r2 @ fieldValues @ '') '';
                  r4 = r3 @ ''ON DUPLICATE KEY UPDATE '';
                  fieldValues2 = upsertUpdateLoop s True [] (setFields s)
              in Inr (r4 @ fieldValues2))
         | _ \<Rightarrow> Inl CODE_ERROR))"

subsection \<open>\<open>createFromClause\<close>\<close>

text \<open>The loop over \<open>fromFields\<close>. The local \<open>tableAlias\<close> is declared before the loop and
  handed to it as it is; the body reads it after \<open>" AS "\<close> and assigns \<open>tableName\<close> only.\<close>
fun fromLoop :: "string \<Rightarrow> bool \<Rightarrow> string \<Rightarrow> (string \<times> string) list \<Rightarrow> string" where
  "fromLoop tableAlias first returnValue [] = returnValue"
| "fromLoop tableAlias first returnValue (element # rest) =
     (let r1 = (if first then returnValue else returnValue @ '', '');
          tblName = fst element;
          r2 = r1 @ tblName;
          r3 = (if length (snd element) \<noteq> 0 then r2 @ '' AS '' @ tableAlias else r2)
      in fromLoop tableAlias False r3 rest)"

definition createFromClause :: "sqlWriter \<Rightarrow> string" where
  "createFromClause s =
     (let returnValue = '' FROM '';
          tableAlias = []
      in fromLoop tableAlias True returnValue (fromFields s))"

subsection \<open>\<open>createJoinClause\<close>\<close>

text \<open>The \<open>default\<close> branch of the switch (\<open>CODE_ERROR\<close>) is not reachable with the four join
  kinds.\<close>
fun joinLoop :: "string \<Rightarrow> parameterJoin list \<Rightarrow> string" where
  "joinLoop returnValue [] = returnValue"
| "joinLoop returnValue ((leftTable, leftColumn, joinKind, rightTable, rightColumn) # rest) =
     (let r1 = (case joinKind of
                  JOIN_LEFT \<Rightarrow> returnValue @ '' LEFT JOIN ''
                | JOIN_RIGHT \<Rightarrow> returnValue @ '' RIGHT JOIN ''
                | JOIN_INNER \<Rightarrow> returnValue @ '' INNER JOIN ''
                | JOIN_FULL \<Rightarrow> returnValue @ ''FULL JOIN '');
          r2 = r1 @ rightTable @ '' ON '';
          r3 = r2 @ leftTable @ ''.'' @ leftColumn @ ''='' @ rightTable @ ''.'' @ rightColumn
      in joinLoop r3 rest)"

definition createJoinClause :: "sqlWriter \<Rightarrow> string" where
  "createJoinClause s = joinLoop [] (joinFields s)"

subsection \<open>\<open>createOrderByClause\<close>\<close>

fun orderByLoop :: "sqlWriter \<Rightarrow> bool \<Rightarrow> string \<Rightarrow> (string \<times> EOrderBy) list \<Rightarrow> string" where
  "orderByLoop s first returnValue [] = returnValue"
| "orderByLoop s first returnValue ((col, dir) # rest) =
     (let r1 = (if first then returnValue else returnValue @ '', '');
          r2 = r1 @ getColumnMap s col @ '' '';
          r3 = (if dir = ASC then r2 @ ''ASC '' else if dir = DESC then r2 @ ''DESC '' else r2)
      in orderByLoop s False r3 rest)"

definition createOrderByClause :: "sqlWriter \<Rightarrow> string" where
  "createOrderByClause s = orderByLoop s True '' ORDER BY '' (orderByFields s)"

subsection \<open>\<open>createSelectClause\<close>\<close>

text \<open>The flag \<open>first\<close> is shared by the four parts of the projection list, so each loop hands
  it on together with \<open>returnValue\<close>.\<close>
fun selectFieldsLoop :: "bool \<times> string \<Rightarrow> string list \<Rightarrow> bool \<times> string" where
  "selectFieldsLoop st [] = st"
| "selectFieldsLoop (first, returnValue) (element # rest) =
     (let r1 = (if first then returnValue else returnValue @ '', '');
          colName = element
      in selectFieldsLoop (False, r1 @ colName) rest)"

fun maxLoop :: "bool \<times> string \<Rightarrow> (string \<times> string) list \<Rightarrow> bool \<times> string" where
  "maxLoop st [] = st"
| "maxLoop (first, returnValue) (element # rest) =
     (let r1 = (if first then returnValue else returnValue @ '', '');
          r2 = r1 @ ''MAX('' @ fst element @ '')'';
          r3 = (if snd element \<noteq> [] then r2 @ '' AS '' @ snd element else r2)
      in maxLoop (False, r3) rest)"

fun minLoop :: "bool \<times> string \<Rightarrow> (string \<times> string) list \<Rightarrow> bool \<times> string" where
  "minLoop st [] = st"
| "minLoop (first, returnValue) (element # rest) =
     (let r1 = (if first then returnValue else returnValue @ '', '');
          r2 = r1 @ ''MIN('' @ fst element @ '')'';
          r3 = (if snd element \<noteq> [] then r2 @ '' AS '' @ snd element else r2)
      in minLoop (False, r3) rest)"

definition createSelectClause :: "sqlWriter \<Rightarrow> string" where
  "createSelectClause s =
     (let r0 = ''SELECT '';
          r1 = (case limitValue s of
                  Some l \<Rightarrow> (if dialect s = MICROSOFT then r0 @ ''TOP '' @ to_string_u64 l @ '' '' else r0)
                | None \<Rightarrow> r0);
          r2 = (if distinct_flag s then r1 @ ''DISTINCT '' else r1);
          st3 = selectFieldsLoop (True, r2) (selectFields s);
          st4 = (case countValue s of
                   Some c \<Rightarrow>
                     (let r = (if fst st3 then snd st3 else snd st3 @ '', '')
                      in (False, if c = ''*'' then r @ ''COUNT(*) '' else r @ ''COUNT('' @ c @ '') ''))
                 | None \<Rightarrow> st3);
          st5 = (if maxFields s \<noteq> [] then maxLoop st4 (maxFields s) else st4);
          st6 = (if minFields s \<noteq> [] then minLoop st5 (minFields s) else st5)
      in snd st6)"

subsection \<open>\<open>createSelectQuery\<close>\<close>

definition createSelectQuery :: "sqlWriter \<Rightarrow> error + string" where
  "createSelectQuery s =
     (if \<not> (selectFields s \<noteq> [] \<or> countValue s \<noteq> None \<or> maxFields s \<noteq> [] \<or> minFields s \<noteq> [])
      then Inl (RUNTIME_ERROR ''MAPPED SQL WRITER: No Select fields in select clause.''
                  (Some E_SQLWRITER_NOSELECTFIELDS))
      else
        (let r1 = createSelectClause s
         in if \<not> (fromFields s \<noteq> [])
            then Inl (RUNTIME_ERROR ''MAPPED SQL WRITER: No from fields in select clause.''
                        (Some E_SQLWRITER_NOFROMFIELD))
            else
              (let r2 = r1 @ createFromClause s;
                   r3 = (if joinFields s \<noteq> [] then r2 @ createJoinClause s else r2);
                   r4 = (if whereFields s \<noteq> [] then r3 @ createWhereClause s else r3);
                   r5 = (if orderByFields s \<noteq> [] then r4 @ createOrderByClause s else r4)
               in case createLimitClause s of
                    Inl e \<Rightarrow> Inl e
                  | Inr limitClause \<Rightarrow> Inr (r5 @ limitClause))))"

section \<open>\<open>string()\<close>: rendering by query kind\<close>

definition string_sql :: "sqlWriter \<Rightarrow> error + string" where
  "string_sql s =
     (case queryType s of
        qt_select \<Rightarrow> createSelectQuery s
      | qt_insert \<Rightarrow> Inr (createInsertQuery s)
      | qt_update \<Rightarrow> createUpdateQuery s
      | qt_delete \<Rightarrow> Inr (createDeleteQuery s)
      | qt_upsert \<Rightarrow> createUpsertQuery s
      | _ \<Rightarrow> Inl CODE_ERROR)"

section \<open>The database map and the map file\<close>

subsection \<open>\<open>createTable\<close>, \<open>createColumn\<close>, \<open>setTableMap\<close>, \<open>setColumnMap\<close>\<close>

definition createTable :: "string \<Rightarrow> sqlWriter \<Rightarrow> bool \<times> sqlWriter" where
  "createTable tblName s =
     (if databaseMap s tblName \<noteq> None then (False, s)
      else
        (let newTable = \<lparr> tableName = (tblName, []), columnData = Map.empty \<rparr>
         in (True, s\<lparr> databaseMap := (databaseMap s)(tblName \<mapsto> newTable) \<rparr>)))"

definition createColumn :: "string \<Rightarrow> string \<Rightarrow> sqlWriter \<Rightarrow> bool \<times> sqlWriter" where
  "createColumn tblName colName s =
     (case databaseMap s tblName of
        None \<Rightarrow> (False, s)
      | Some td \<Rightarrow>
          (if columnData td colName \<noteq> None then (False, s)
           else
             (let newColumn = \<lparr> columnName = (colName, []) \<rparr>
              in (True, s\<lparr> databaseMap := (databaseMap s)
                            (tblName \<mapsto> td\<lparr> columnData := (columnData td)(colName \<mapsto> newColumn) \<rparr>) \<rparr>))))"

definition setColumnMap :: "string \<Rightarrow> string \<Rightarrow> string \<Rightarrow> sqlWriter \<Rightarrow> sqlWriter" where
  "setColumnMap tblName colName columnMap s =
     (case databaseMap s tblName of
        None \<Rightarrow> s
      | Some td \<Rightarrow>
          (case columnData td colName of
             None \<Rightarrow> s
           | Some cd \<Rightarrow>
               s\<lparr> databaseMap := (databaseMap s)
                     (tblName \<mapsto> td\<lparr> columnData := (columnData td)
                        (colName \<mapsto> cd\<lparr> columnName := (colName, columnMap) \<rparr>) \<rparr>) \<rparr>))"

definition setTableMap :: "string \<Rightarrow> string \<Rightarrow> sqlWriter \<Rightarrow> sqlWriter" where
  "setTableMap tblName tableMap s =
     (case databaseMap s tblName of
        None \<Rightarrow> s
      | Some td \<Rightarrow> s\<lparr> databaseMap := (databaseMap s)(tblName \<mapsto> td\<lparr> tableName := (tblName, tableMap) \<rparr>) \<rparr>)"

subsection \<open>String positions\<close>

text \<open>A position is a \<open>size_t\<close>; \<open>std::string::npos\<close>, the largest \<open>size_t\<close>, is \<open>None\<close>, and
  every index into a string is smaller than it.\<close>
type_synonym pos = "nat option"

text \<open>\<open>a < b\<close> on positions.\<close>
fun pos_less :: "pos \<Rightarrow> pos \<Rightarrow> bool" where
  "pos_less (Some a) (Some b) = (a < b)"
| "pos_less (Some a) None = True"
| "pos_less None b = False"

fun index_of :: "char \<Rightarrow> string \<Rightarrow> nat option" where
  "index_of c [] = None"
| "index_of c (x # xs) = (if x = c then Some 0 else map_option Suc (index_of c xs))"

text \<open>\<open>str.find_first_of(c, from)\<close>: the first index at or after \<open>start\<close> that holds \<open>c\<close>;
  \<open>npos\<close> when there is none, also when \<open>start\<close> is \<open>npos\<close>.\<close>
definition find_first_of :: "string \<Rightarrow> char \<Rightarrow> pos \<Rightarrow> pos" where
  "find_first_of str c start =
     (case start of
        None \<Rightarrow> None
      | Some p \<Rightarrow> map_option (\<lambda>i. i + p) (index_of c (drop p str)))"

text \<open>\<open>str.substr(p, n)\<close> for \<open>p\<close> within the string; a count of \<open>npos\<close> takes the rest.\<close>
definition substr :: "string \<Rightarrow> nat \<Rightarrow> pos \<Rightarrow> string" where
  "substr str p n = (case n of None \<Rightarrow> drop p str | Some k \<Rightarrow> take k (drop p str))"

text \<open>\<open>textLine.substr(tokenS + 1, tokenE - tokenS - 1)\<close>, which the source evaluates under the
  guard \<open>tokenS < tokenE\<close> only, so \<open>tokenS\<close> is an index there. When \<open>tokenE\<close> is \<open>npos\<close> the
  count exceeds what is left of the line.\<close>
definition tokenText :: "string \<Rightarrow> pos \<Rightarrow> pos \<Rightarrow> string" where
  "tokenText textLine tokenS tokenE =
     (case tokenS of
        None \<Rightarrow> []
      | Some a \<Rightarrow> substr textLine (a + 1) (case tokenE of None \<Rightarrow> None | Some b \<Rightarrow> Some (b - a - 1)))"

text \<open>\<open>std::isspace\<close> in the classic locale, and \<open>boost::trim\<close>.\<close>
definition isspace :: "char \<Rightarrow> bool" where
  "isspace c = (c = CHR '' '' \<or> c = CHR 0x09 \<or> c = CHR 0x0A \<or> c = CHR 0x0B \<or> c = CHR 0x0C \<or> c = CHR 0x0D)"

definition trim :: "string \<Rightarrow> string" where
  "trim str = rev (dropWhile isspace (rev (dropWhile isspace str)))"

subsection \<open>\<open>readMapFile\<close>\<close>

definition TABLE :: string where "TABLE = ''TABLE''"
definition COLUMN :: string where "COLUMN = ''COLUMN''"
definition END :: string where "END = ''END''"

text \<open>What the function streams to \<open>std::clog\<close>: text, the path \<open>ifn\<close>, a line number, and
  \<open>std::endl\<close>.\<close>
datatype logItem = LogText string | LogPath string | LogInt int | LogEndl

text \<open>A failed load: what was written to \<open>std::clog\<close>, and the error raised.\<close>
type_synonym failure = "logItem list \<times> error"

text \<open>The locals that live across the iterations of the read loop, and the writer.\<close>
record mapLoop =
  lineNumber :: int
  currentTable :: string
  szToken1 :: string
  szToken2 :: string
  writer :: sqlWriter

definition clogSyntax :: "string \<Rightarrow> int \<Rightarrow> string \<Rightarrow> logItem list" where
  "clogSyntax ifn n what =
     [LogText ''Error in SQL map file: '', LogPath ifn, LogEndl,
      LogText ''Syntax command on line: '', LogInt n, LogText what, LogEndl]"

text \<open>The \<open>COLUMN\<close> branch.\<close>
definition columnDirective :: "string \<Rightarrow> mapLoop \<Rightarrow> failure + mapLoop" where
  "columnDirective ifn st =
     (if currentTable st = [] then
        Inl (clogSyntax ifn (lineNumber st) '' - COLUMN directive found, but no TABLE directive in force.'',
             RUNTIME_ERROR ''MAPPED SQL WRITER: Syntax Error.'' (Some E_SQLWRITER_SYNTAXERROR))
      else if szToken1 st = [] then
        Inl (clogSyntax ifn (lineNumber st) '' - COLUMN directive found, column name.'',
             RUNTIME_ERROR ''MAPPED SQL WRITER: Syntax Error.'' (Some E_SQLWRITER_SYNTAXERROR))
      else if (case databaseMap (writer st) (currentTable st) of
                 None \<Rightarrow> True
               | Some td \<Rightarrow> columnData td (szToken1 st) = None) then
        Inl ([], RUNTIME_ERROR (''Error in SQL map file: '' @ ifn @ ''Syntax command on line: ''
                                @ to_string_int (lineNumber st) @ '' - Invalid column name.'') None)
      else
        (if szToken2 st \<noteq> [] then
           Inr (st\<lparr> writer := setColumnMap (currentTable st) (szToken1 st) (szToken2 st) (writer st) \<rparr>)
         else Inr st))"

text \<open>The \<open>TABLE\<close> branch.\<close>
definition tableDirective :: "string \<Rightarrow> mapLoop \<Rightarrow> failure + mapLoop" where
  "tableDirective ifn st =
     (if currentTable st \<noteq> [] then
        Inl (clogSyntax ifn (lineNumber st)
               '' - TABLE directive found, but a TABLE directive is already specified.'',
             RUNTIME_ERROR ''MAPPED SQL WRITER: Syntax Error.'' (Some E_SQLWRITER_SYNTAXERROR))
      else if szToken1 st = [] then
        Inl (clogSyntax ifn (lineNumber st) '' - TABLE directive found, but no table name.'',
             RUNTIME_ERROR ''MAPPED SQL WRITER: Syntax Error.'' (Some E_SQLWRITER_SYNTAXERROR))
      else if databaseMap (writer st) (szToken1 st) = None then
        Inl ([LogText ''Error in SQL map file: '', LogPath ifn, LogEndl,
              LogText ''Error on line: '', LogInt (lineNumber st), LogText '' - Invalid Table name.'', LogEndl],
             RUNTIME_ERROR ''MAPPED SQL WRITER: Invalid Table Name.'' (Some E_SQLWRITER_INVALIDTABLENAME))
      else
        (let st1 = st\<lparr> currentTable := szToken1 st \<rparr>
         in if szToken2 st1 \<noteq> [] then
              Inr (st1\<lparr> writer := setTableMap (currentTable st1) (szToken2 st1) (writer st1) \<rparr>)
            else Inr st1))"

text \<open>The body of the read loop for one line, up to the increment of \<open>lineNumber\<close>.\<close>
definition processLine :: "string \<Rightarrow> string \<Rightarrow> mapLoop \<Rightarrow> failure + mapLoop" where
  "processLine ifn textLine st =
     (if length textLine > 1 \<and> textLine ! 0 \<noteq> CHR '';'' then
        (let spacePosn = find_first_of textLine CHR '' '' (Some 0);
             szCommand = trim (substr textLine 0 spacePosn);
             equalPosn = find_first_of textLine CHR ''='' (Some 0);
             token1S = find_first_of textLine CHR ''['' (Some 0);
             token1E = find_first_of textLine CHR '']'' (Some 0);
             token2S = find_first_of textLine CHR ''['' equalPosn;
             token2E = find_first_of textLine CHR '']'' equalPosn
         in case (if pos_less token1S token1E then
                    Inr (st\<lparr> szToken1 := tokenText textLine token1S token1E \<rparr>)
                  else if szCommand \<noteq> END then
                    Inl ([], RUNTIME_ERROR (''Error in SQL map file:'' @ ifn @ ''Syntax error on line: ''
                                            @ to_string_int (lineNumber st)
                                            @ '' - Needs at least one token.'') None)
                  else Inr st) of
              Inl e \<Rightarrow> Inl e
            | Inr st1 \<Rightarrow>
                (let st2 = (if pos_less token2S token2E then
                              st1\<lparr> szToken2 := tokenText textLine token2S token2E \<rparr>
                            else st1\<lparr> szToken2 := [] \<rparr>)
                 in if szCommand = COLUMN then columnDirective ifn st2
                    else if szCommand = TABLE then tableDirective ifn st2
                    else if szCommand = END then
                      (if token1S = None \<and> token1E = None \<and> token2S = None \<and> token2E = None
                          \<and> equalPosn = None then
                         Inr (st2\<lparr> currentTable := [] \<rparr>)
                       else
                         Inl ([LogText ''Error in SQL map file: '', LogPath ifn, LogEndl,
                               LogText ''Syntax command on line: '', LogInt (lineNumber st2), LogEndl],
                              RUNTIME_ERROR ''MAPPED SQL WRITER: Syntax Error.''
                                (Some E_SQLWRITER_SYNTAXERROR)))
                    else
                      Inl ([LogText ''Error in SQL map file: '', LogPath ifn, LogEndl,
                            LogText ''Invalid command on line: '', LogInt (lineNumber st2), LogEndl],
                           RUNTIME_ERROR ''MAPPED SQL WRITER: Invalid Command.''
                             (Some E_SQLWRITER_INVALIDCOMMAND))))
      else Inr st)"

text \<open>The read loop over the lines that \<open>std::getline\<close> delivers.\<close>
fun readLoop :: "string \<Rightarrow> mapLoop \<Rightarrow> string list \<Rightarrow> failure + mapLoop" where
  "readLoop ifn st [] = Inr st"
| "readLoop ifn st (textLine # rest) =
     (case processLine ifn textLine st of
        Inl e \<Rightarrow> Inl e
      | Inr st1 \<Rightarrow> readLoop ifn (st1\<lparr> lineNumber := lineNumber st1 + 1 \<rparr>) rest)"

text \<open>The locals as they are when the loop is entered.\<close>
definition mapLoop_init :: "sqlWriter \<Rightarrow> mapLoop" where
  "mapLoop_init s = \<lparr> lineNumber = 1, currentTable = [], szToken1 = [], szToken2 = [], writer = s \<rparr>"

text \<open>The file system is a map from a path to the lines of the file there; a path outside its
  domain cannot be opened. \<open>lineNumber\<close> is a C++ \<open>int\<close>; the model counts in \<open>int\<close>
  without a bound, which agrees with the code for files of fewer than \<open>2^31\<close> lines.\<close>
definition readMapFile ::
  "(string \<rightharpoonup> string list) \<Rightarrow> string \<Rightarrow> sqlWriter \<Rightarrow> failure + sqlWriter" where
  "readMapFile fs ifn s =
     (case fs ifn of
        None \<Rightarrow> Inl ([], RUNTIME_ERROR (''Could not open SQL map file:'' @ ifn) None)
      | Some textLines \<Rightarrow>
          (case readLoop ifn (mapLoop_init s) textLines of
             Inl e \<Rightarrow> Inl e
           | Inr st \<Rightarrow> Inr (writer st)))"

section \<open>Call sequences\<close>

text \<open>The mutating methods of the fluent interface, as values, so that a history of calls on
  a builder can be spoken about.\<close>
datatype call =
    CSelect
  | CSelectFields "string list"
  | CSelectTableFields string "string list"
  | CInsertIntoTable string
  | CInsertInto string "string list"
  | CUpdate string
  | CDeleteFrom string
  | CUpsert string
  | CFromAlias string string
  | CFromList "string list"
  | CJoin "parameterJoin list"
  | CWhere "parameterTriple list"
  | CResetWhere
  | CSetValue string parameter
  | CSetList "parameterPair list"
  | CValues "parameterStorage list"
  | COrderBy "(string \<times> EOrderBy) list"
  | CLimit "64 word"
  | COffset "64 word"
  | CDistinct
  | CCount string
  | CMax string string
  | CMin string string
  | CResetQuery

fun apply_call :: "call \<Rightarrow> sqlWriter \<Rightarrow> sqlWriter" where
  "apply_call CSelect s = select s"
| "apply_call (CSelectFields fs) s = select_fields fs s"
| "apply_call (CSelectTableFields t fs) s = select_table_fields t fs s"
| "apply_call (CInsertIntoTable t) s = insertInto_table t s"
| "apply_call (CInsertInto t fs) s = insertInto t fs s"
| "apply_call (CUpdate t) s = update t s"
| "apply_call (CDeleteFrom t) s = deleteFrom t s"
| "apply_call (CUpsert t) s = upsert t s"
| "apply_call (CFromAlias t a) s = from_alias t a s"
| "apply_call (CFromList ts) s = from_list ts s"
| "apply_call (CJoin js) s = join_q js s"
| "apply_call (CWhere ws) s = where_q ws s"
| "apply_call CResetWhere s = resetWhere s"
| "apply_call (CSetValue c v) s = set_value c v s"
| "apply_call (CSetList ps) s = set_list ps s"
| "apply_call (CValues rows) s = values_q rows s"
| "apply_call (COrderBy os) s = orderBy os s"
| "apply_call (CLimit n) s = limit n s"
| "apply_call (COffset n) s = offset n s"
| "apply_call CDistinct s = distinct_set s"
| "apply_call (CCount e) s = count_q e s"
| "apply_call (CMax c a) s = max_q c a s"
| "apply_call (CMin c a) s = min_q c a s"
| "apply_call CResetQuery s = resetQuery s"

text \<open>The methods that enter a query kind.\<close>
fun kindEntering :: "call \<Rightarrow> bool" where
  "kindEntering CSelect = True"
| "kindEntering (CSelectFields fs) = True"
| "kindEntering (CSelectTableFields t fs) = True"
| "kindEntering (CInsertIntoTable t) = True"
| "kindEntering (CInsertInto t fs) = True"
| "kindEntering (CUpdate t) = True"
| "kindEntering (CDeleteFrom t) = True"
| "kindEntering (CUpsert t) = True"
| "kindEntering c = False"

text \<open>The builder after a sequence of calls, first call first.\<close>
definition run :: "call list \<Rightarrow> sqlWriter \<Rightarrow> sqlWriter" where
  "run calls s = foldl (\<lambda>w c. apply_call c w) s calls"

section \<open>Notions used to state the properties\<close>

text \<open>A list of strings joined by a separator.\<close>
fun join_with :: "string \<Rightarrow> string list \<Rightarrow> string" where
  "join_with sep [] = []"
| "join_with sep [x] = x"
| "join_with sep (x # y # ys) = x @ sep @ join_with sep (y # ys)"

text \<open>The value formatter in the words of the specification: a text value is single-quoted
  (the apostrophe, character \<open>0x27\<close>, before and after it), a bind placeholder gets the prefix
  \<open>:\<close> unless its name starts with \<open>:\<close> or \<open>?\<close>, any other value is its \<open>to_string\<close>.\<close>
fun formatValue :: "parameter \<Rightarrow> string" where
  "formatValue (Text t) = [CHR 0x27] @ t @ [CHR 0x27]"
| "formatValue (BindPlaceholder n) = (if prefix '':'' n \<or> prefix ''?'' n then n else '':'' @ n)"
| "formatValue p = to_string p"

text \<open>A value row: its values, comma-separated, in parentheses.\<close>
definition formatRow :: "parameterStorage \<Rightarrow> string" where
  "formatRow row = ''('' @ join_with '', '' (map formatValue row) @ '')''"

text \<open>What one \<open>FROM\<close> entry contributes: the table name, and after it \<open>" AS "\<close> with nothing
  behind it when the entry has an alias.\<close>
definition fromEntry :: "string \<times> string \<Rightarrow> string" where
  "fromEntry e = (if snd e = [] then fst e else fst e @ '' AS '')"

text \<open>The builder with the text of every alias forgotten: only whether an alias is empty is
  kept.\<close>
definition forgetAlias :: "sqlWriter \<Rightarrow> sqlWriter" where
  "forgetAlias s = s\<lparr> fromFields := map (\<lambda>e. (fst e, if snd e = [] then [] else ''?'')) (fromFields s) \<rparr>"

text \<open>A line that the read loop takes as a \<open>COLUMN\<close> directive: it is not skipped, and its
  command word is \<open>COLUMN\<close>.\<close>
definition isColumnLine :: "string \<Rightarrow> bool" where
  "isColumnLine textLine =
     (length textLine > 1 \<and> textLine ! 0 \<noteq> CHR '';''
      \<and> trim (substr textLine 0 (find_first_of textLine CHR '' '' (Some 0))) = COLUMN)"

text \<open>Table \<open>t\<close> and its column \<open>c\<close> are declared in the database map.\<close>
definition declared :: "string \<Rightarrow> string \<Rightarrow> sqlWriter \<Rightarrow> bool" where
  "declared t c s = (case databaseMap s t of None \<Rightarrow> False | Some td \<Rightarrow> columnData td c \<noteq> None)"

text \<open>The physical names recorded for a table and for a column of it.\<close>
definition tableMapOf :: "sqlWriter \<Rightarrow> string \<Rightarrow> string option" where
  "tableMapOf s t = map_option (\<lambda>td. snd (tableName td)) (databaseMap s t)"

definition columnMapOf :: "sqlWriter \<Rightarrow> string \<Rightarrow> string \<Rightarrow> string option" where
  "columnMapOf s t c =
     (case databaseMap s t of
        None \<Rightarrow> None
      | Some td \<Rightarrow> map_option (\<lambda>cd. snd (columnName cd)) (columnData td c))"

text \<open>The builder that a kind-entering call starts from when a kind is active: everything
  that \<open>resetQuery\<close> clears is empty, the rest is as in \<open>s\<close>.\<close>
definition cleared :: "sqlWriter \<Rightarrow> sqlWriter" where
  "cleared s = (sqlWriter_new (dialect s))\<lparr> deleteTable := deleteTable s, databaseMap := databaseMap s \<rparr>"

text \<open>The number that a string of decimal digits denotes.\<close>
definition decimal_value :: "string \<Rightarrow> nat" where
  "decimal_value ds = foldl (\<lambda>a c. 10 * a + (of_char c - 48)) 0 ds"

section \<open>Properties\<close>

lemmas mutator_defs =
  select_def select_fields_def select_table_fields_def insertInto_table_def insertInto_def
  update_def deleteFrom_def upsert_def from_alias_def from_list_def join_q_def where_q_def
  resetWhere_def set_value_def set_list_def values_q_def orderBy_def limit_def offset_def
  distinct_set_def count_q_def max_q_def min_q_def resetQuery_def

subsection \<open>The operator whitelist\<close>

text \<open>
  Claim C7. \<open>verifyOperator\<close> returns true for exactly the ten operator strings
  \<open>=\<close>, \<open><>\<close>, \<open>!=\<close>, \<open>>\<close>, \<open><\<close>, \<open>>=\<close>, \<open><=\<close>, \<open>BETWEEN\<close>, \<open>LIKE\<close>, \<open>IN\<close>, and
  false for every other string.
\<close>

theorem verifyOperator_whitelist:
  "verifyOperator oper =
     (oper \<in> {''='', ''<>'', ''!='', ''>'', ''<'', ''>='', ''<='', ''BETWEEN'', ''LIKE'', ''IN''})"
  by (simp only: verifyOperator_def insert_iff empty_iff simp_thms)

subsection \<open>Rendering without a query kind\<close>

lemma queryType_apply_call:
  "\<not> kindEntering c \<Longrightarrow> queryType (apply_call c s) = queryType s \<or> queryType (apply_call c s) = qt_none"
  by (cases c) (simp_all add: mutator_defs)

lemma queryType_run:
  "queryType (run calls s) \<noteq> qt_none \<Longrightarrow> queryType s \<noteq> qt_none \<or> (\<exists>c \<in> set calls. kindEntering c)"
proof (induction calls rule: rev_induct)
  case Nil
  then show ?case by (simp add: run_def)
next
  case (snoc c calls)
  show ?case
  proof (cases "kindEntering c")
    case True
    then show ?thesis by auto
  next
    case False
    have step: "run (calls @ [c]) s = apply_call c (run calls s)"
      by (simp add: run_def)
    from queryType_apply_call [OF False, of "run calls s"] snoc.prems step
    have "queryType (run calls s) \<noteq> qt_none" by auto
    with snoc.IH show ?thesis by auto
  qed
qed

lemma string_sql_none: "queryType s = qt_none \<Longrightarrow> string_sql s = Inl CODE_ERROR"
  by (simp add: string_sql_def)

text \<open>
  Claim C10. \<open>string()\<close> on a builder whose query kind is None never returns SQL text: it
  reaches the \<open>default\<close> branch and raises the code error. This is so for a freshly
  constructed builder and after \<open>resetQuery\<close>; hence a render that succeeds has a kind other
  than None, and on a builder that started fresh the calls made so far include a
  kind-entering one.
\<close>

theorem string_sql_kind_none:
  "(queryType s = qt_none \<longrightarrow> string_sql s = Inl CODE_ERROR)
   \<and> string_sql (sqlWriter_new d) = Inl CODE_ERROR
   \<and> string_sql (resetQuery s) = Inl CODE_ERROR
   \<and> (string_sql s = Inr sql \<longrightarrow> queryType s \<noteq> qt_none)
   \<and> (string_sql (run calls (sqlWriter_new d)) = Inr sql \<longrightarrow> (\<exists>c \<in> set calls. kindEntering c))"
proof (intro conjI impI)
  show "string_sql s = Inl CODE_ERROR" if "queryType s = qt_none"
    using that by (rule string_sql_none)
  show "string_sql (sqlWriter_new d) = Inl CODE_ERROR"
    by (rule string_sql_none) (simp add: sqlWriter_new_def)
  show "string_sql (resetQuery s) = Inl CODE_ERROR"
    by (rule string_sql_none) (simp add: resetQuery_def)
  show "queryType s \<noteq> qt_none" if "string_sql s = Inr sql"
    using that string_sql_none [of s] by auto
  show "\<exists>c \<in> set calls. kindEntering c" if r: "string_sql (run calls (sqlWriter_new d)) = Inr sql"
  proof -
    have "queryType (run calls (sqlWriter_new d)) \<noteq> qt_none"
      using r string_sql_none [of "run calls (sqlWriter_new d)"] by auto
    from queryType_run [OF this] show ?thesis
      by (simp add: sqlWriter_new_def)
  qed
qed

theorem string_sql_kind_none_witness:
  "queryType (sqlWriter_new MYSQL) = qt_none
   \<and> string_sql (sqlWriter_new MYSQL) = Inl CODE_ERROR
   \<and> string_sql (run [CDeleteFrom ''t''] (sqlWriter_new MYSQL)) = Inr ''DELETE FROM t WHERE ''
   \<and> queryType (run [CDeleteFrom ''t''] (sqlWriter_new MYSQL)) \<noteq> qt_none
   \<and> (\<exists>c \<in> set [CDeleteFrom ''t'']. kindEntering c)"
proof -
  have r: "string_sql (run [CDeleteFrom ''t''] (sqlWriter_new MYSQL)) = Inr ''DELETE FROM t WHERE ''"
    by (simp add: run_def deleteFrom_def sqlWriter_new_def string_sql_def createDeleteQuery_def
        createWhereClause_def getColumnMap_def)
  have k: "queryType (sqlWriter_new MYSQL) = qt_none"
    by (simp add: sqlWriter_new_def)
  from string_sql_kind_none [of "sqlWriter_new MYSQL" MYSQL "''DELETE FROM t WHERE ''" "[CDeleteFrom ''t'']"]
    string_sql_kind_none [of "run [CDeleteFrom ''t''] (sqlWriter_new MYSQL)" MYSQL
      "''DELETE FROM t WHERE ''" "[CDeleteFrom ''t'']"] r k
  show ?thesis by blast
qed

subsection \<open>Decimal rendering\<close>

lemma digit_char_value: "d < 10 \<Longrightarrow> of_char (digit_char d) = 48 + d"
proof -
  assume "d < 10"
  then consider "d = 0" | "d = 1" | "d = 2" | "d = 3" | "d = 4" | "d = 5" | "d = 6" | "d = 7"
    | "d = 8" | "d = 9" by atomize_elim presburger
  then show ?thesis by cases (simp_all add: digit_char_def)
qed

lemma decimal_value_snoc: "decimal_value (ds @ [c]) = 10 * decimal_value ds + (of_char c - 48)"
  by (simp add: decimal_value_def)

text \<open>The digits that \<open>decimal\<close> writes denote the number written.\<close>
lemma decimal_roundtrip: "decimal_value (decimal n) = n"
proof (induction n rule: decimal.induct)
  case (1 n)
  show ?case
  proof (cases "n < 10")
    case True
    then show ?thesis
      by (simp add: decimal.simps [of n] decimal_value_def digit_char_value)
  next
    case False
    with 1 have "decimal_value (decimal (n div 10)) = n div 10" by simp
    with False show ?thesis
      by (simp add: decimal.simps [of n] decimal_value_snoc digit_char_value)
  qed
qed

lemma to_string_u64_max: "to_string_u64 uint64_max = ''18446744073709551615''"
  by (simp add: to_string_u64_def uint64_max_def decimal.simps digit_char_def
      unsigned_minus_1_eq_mask mask_eq_exp_minus_1)

lemma to_string_u64_5: "to_string_u64 5 = ''5''"
  by (simp add: to_string_u64_def decimal.simps digit_char_def)

lemma to_string_u64_7: "to_string_u64 7 = ''7''"
  by (simp add: to_string_u64_def decimal.simps digit_char_def)

lemma to_string_u64_10: "to_string_u64 10 = ''10''"
  by (simp add: to_string_u64_def decimal.simps digit_char_def)

subsection \<open>The implicit reset\<close>

text \<open>With a kind active, each kind-entering method starts from the cleared builder: of the
  clause state only \<open>deleteTable\<close> is carried over.\<close>
lemma kind_entry_clears:
  assumes "queryType s \<noteq> qt_none"
  shows "select s = (cleared s)\<lparr> queryType := qt_select \<rparr>"
    and "select_fields fs s = (cleared s)\<lparr> queryType := qt_select, selectFields := fs \<rparr>"
    and "select_table_fields t fs s =
           (cleared s)\<lparr> queryType := qt_select, selectFields := map (\<lambda>elem. t @ ''.'' @ elem) fs \<rparr>"
    and "insertInto_table t s = (cleared s)\<lparr> queryType := qt_insert, insertTable := t \<rparr>"
    and "insertInto t fs s = (cleared s)\<lparr> queryType := qt_insert, insertTable := t, selectFields := fs \<rparr>"
    and "update t s = (cleared s)\<lparr> queryType := qt_update, updateTable := t \<rparr>"
    and "deleteFrom t s = (cleared s)\<lparr> queryType := qt_delete, deleteTable := t \<rparr>"
    and "upsert t s = (cleared s)\<lparr> queryType := qt_upsert, insertTable := t \<rparr>"
  using assms by (simp_all add: mutator_defs cleared_def sqlWriter_new_def)

text \<open>
  Claim C1. A kind-entering method called while a query kind is active is to clear all clause
  state of the prior statement, the delete target table included. \<open>resetQuery\<close> clears every
  clause field but \<open>deleteTable\<close>: after \<open>deleteFrom("t")\<close>, each of \<open>select()\<close>,
  \<open>insertInto\<close>, \<open>update\<close> and \<open>upsert\<close>, and \<open>resetQuery\<close> itself, leaves the delete target
  \<open>t\<close> of the prior statement in the builder.
\<close>

theorem deleteTable_survives_reset:
  "queryType (deleteFrom ''t'' (sqlWriter_new MYSQL)) \<noteq> qt_none
   \<and> deleteTable (select (deleteFrom ''t'' (sqlWriter_new MYSQL))) = ''t''
   \<and> deleteTable (insertInto ''u'' [''a''] (deleteFrom ''t'' (sqlWriter_new MYSQL))) = ''t''
   \<and> deleteTable (update ''u'' (deleteFrom ''t'' (sqlWriter_new MYSQL))) = ''t''
   \<and> deleteTable (upsert ''u'' (deleteFrom ''t'' (sqlWriter_new MYSQL))) = ''t''
   \<and> deleteTable (resetQuery (deleteFrom ''t'' (sqlWriter_new MYSQL))) = ''t''"
  by (simp add: mutator_defs sqlWriter_new_def)

subsection \<open>The Microsoft dialect\<close>

text \<open>A Select on a Microsoft builder never renders: whenever projection and \<open>FROM\<close> source
  are present, \<open>createLimitClause\<close> is reached and has no case for the dialect.\<close>
lemma microsoft_select_never_renders:
  "dialect s = MICROSOFT \<Longrightarrow> queryType s = qt_select \<Longrightarrow> \<exists>e. string_sql s = Inl e"
  by (simp add: string_sql_def createSelectQuery_def createLimitClause_def Let_def)

text \<open>
  Claim C2. On a Microsoft builder with a limit, rendering a Select is to succeed with the
  limit folded into the \<open>SELECT\<close> clause as \<open>TOP n\<close>. For
  \<open>select({"a"}).from("t").limit(10)\<close> the select clause is indeed \<open>SELECT TOP 10 a\<close>, but
  \<open>string()\<close> raises the unknown-dialect error of \<open>createLimitClause\<close> and returns no text.
\<close>

theorem microsoft_select_limit_raises:
  "createSelectClause (limit 10 (from_alias ''t'' [] (select_fields [''a''] (sqlWriter_new MICROSOFT))))
     = ''SELECT TOP 10 a''
   \<and> string_sql (limit 10 (from_alias ''t'' [] (select_fields [''a''] (sqlWriter_new MICROSOFT))))
     = Inl (RUNTIME_ERROR ''Unknown dialect'' (Some E_SQLWRITER_UNKNOWNDIALECT))"
  by (simp add: mutator_defs sqlWriter_new_def string_sql_def createSelectQuery_def
      createSelectClause_def createLimitClause_def Let_def to_string_u64_10)

subsection \<open>Missing required clauses\<close>

text \<open>
  Claim C3. \<open>string()\<close> on a Select builder fails with a missing-required-clause error, and
  returns no SQL text, whenever there is no projection source (no select fields, no count
  expression, no min/max entries) or no \<open>FROM\<close> source: the error is the no-select-fields one
  when the projection is missing, the no-from-field one when only the \<open>FROM\<close> source is.
  \<open>string()\<close> on an Update builder fails whenever \<open>setFields\<close> is empty.
\<close>

theorem string_sql_missing_clause:
  "(queryType s = qt_select \<and> selectFields s = [] \<and> countValue s = None \<and> maxFields s = [] \<and> minFields s = []
      \<longrightarrow> string_sql s = Inl (RUNTIME_ERROR ''MAPPED SQL WRITER: No Select fields in select clause.''
                                (Some E_SQLWRITER_NOSELECTFIELDS)))
   \<and> (queryType s = qt_select
        \<and> (selectFields s \<noteq> [] \<or> countValue s \<noteq> None \<or> maxFields s \<noteq> [] \<or> minFields s \<noteq> [])
        \<and> fromFields s = []
      \<longrightarrow> string_sql s = Inl (RUNTIME_ERROR ''MAPPED SQL WRITER: No from fields in select clause.''
                                (Some E_SQLWRITER_NOFROMFIELD)))
   \<and> (queryType s = qt_select
        \<and> ((selectFields s = [] \<and> countValue s = None \<and> maxFields s = [] \<and> minFields s = [])
            \<or> fromFields s = [])
      \<longrightarrow> (\<exists>msg code. string_sql s = Inl (RUNTIME_ERROR msg (Some code))
             \<and> (code = E_SQLWRITER_NOSELECTFIELDS \<or> code = E_SQLWRITER_NOFROMFIELD)))
   \<and> (queryType s = qt_update \<and> setFields s = []
      \<longrightarrow> string_sql s = Inl (RUNTIME_ASSERT ''No Set fields defined for update query.''))"
  by (auto simp add: string_sql_def createSelectQuery_def createUpdateQuery_def createSetClause_def Let_def)

theorem string_sql_missing_clause_witness:
  "queryType (select (sqlWriter_new MYSQL)) = qt_select
   \<and> selectFields (select (sqlWriter_new MYSQL)) = []
   \<and> string_sql (select (sqlWriter_new MYSQL))
       = Inl (RUNTIME_ERROR ''MAPPED SQL WRITER: No Select fields in select clause.''
               (Some E_SQLWRITER_NOSELECTFIELDS))
   \<and> queryType (select_fields [''a''] (sqlWriter_new MYSQL)) = qt_select
   \<and> selectFields (select_fields [''a''] (sqlWriter_new MYSQL)) \<noteq> []
   \<and> fromFields (select_fields [''a''] (sqlWriter_new MYSQL)) = []
   \<and> string_sql (select_fields [''a''] (sqlWriter_new MYSQL))
       = Inl (RUNTIME_ERROR ''MAPPED SQL WRITER: No from fields in select clause.''
               (Some E_SQLWRITER_NOFROMFIELD))
   \<and> queryType (update ''t'' (sqlWriter_new MYSQL)) = qt_update
   \<and> setFields (update ''t'' (sqlWriter_new MYSQL)) = []
   \<and> string_sql (update ''t'' (sqlWriter_new MYSQL))
       = Inl (RUNTIME_ASSERT ''No Set fields defined for update query.'')"
  using string_sql_missing_clause [of "select (sqlWriter_new MYSQL)"]
    string_sql_missing_clause [of "select_fields [''a''] (sqlWriter_new MYSQL)"]
    string_sql_missing_clause [of "update ''t'' (sqlWriter_new MYSQL)"]
  by (simp add: mutator_defs sqlWriter_new_def)

subsection \<open>The MySQL limit clause\<close>

text \<open>
  Claim C4. For the MySQL dialect the limit clause is \<open>LIMIT <offset>, <limit>\<close> and a space
  when the offset is set, with \<open>18446744073709551615\<close>, the largest \<open>uint64\<close>, in place of
  an unset limit; it is \<open>LIMIT <limit>\<close> and a space when only the limit is set, and empty
  when neither is. In particular \<open>limit(10).offset(5)\<close> gives \<open>LIMIT 5, 10\<close> and
  \<open>limit(10)\<close> alone gives \<open>LIMIT 10\<close>, each with its trailing space.
\<close>

theorem createLimitClause_mysql:
  "(dialect s = MYSQL \<longrightarrow>
      createLimitClause s =
        Inr (case offsetValue s of
               Some off \<Rightarrow> ''LIMIT '' @ to_string_u64 off @ '', ''
                           @ (case limitValue s of Some l \<Rightarrow> to_string_u64 l
                                                | None \<Rightarrow> ''18446744073709551615'') @ '' ''
             | None \<Rightarrow> (case limitValue s of Some l \<Rightarrow> ''LIMIT '' @ to_string_u64 l @ '' '' | None \<Rightarrow> [])))
   \<and> createLimitClause (offset 5 (limit 10 (from_alias ''t'' [] (select_fields [''a''] (sqlWriter_new MYSQL)))))
       = Inr ''LIMIT 5, 10 ''
   \<and> createLimitClause (limit 10 (from_alias ''t'' [] (select_fields [''a''] (sqlWriter_new MYSQL))))
       = Inr ''LIMIT 10 ''"
proof (intro conjI impI)
  assume "dialect s = MYSQL"
  then show "createLimitClause s =
        Inr (case offsetValue s of
               Some off \<Rightarrow> ''LIMIT '' @ to_string_u64 off @ '', ''
                           @ (case limitValue s of Some l \<Rightarrow> to_string_u64 l
                                                | None \<Rightarrow> ''18446744073709551615'') @ '' ''
             | None \<Rightarrow> (case limitValue s of Some l \<Rightarrow> ''LIMIT '' @ to_string_u64 l @ '' '' | None \<Rightarrow> []))"
    by (simp add: createLimitClause_def to_string_u64_max split: option.splits)
next
  show "createLimitClause (offset 5 (limit 10 (from_alias ''t'' [] (select_fields [''a''] (sqlWriter_new MYSQL)))))
       = Inr ''LIMIT 5, 10 ''"
    by (simp add: createLimitClause_def mutator_defs sqlWriter_new_def to_string_u64_5 to_string_u64_10)
next
  show "createLimitClause (limit 10 (from_alias ''t'' [] (select_fields [''a''] (sqlWriter_new MYSQL))))
       = Inr ''LIMIT 10 ''"
    by (simp add: createLimitClause_def mutator_defs sqlWriter_new_def to_string_u64_10)
qed

theorem createLimitClause_mysql_witness:
  "dialect (offset 7 (sqlWriter_new MYSQL)) = MYSQL
   \<and> createLimitClause (offset 7 (sqlWriter_new MYSQL)) = Inr ''LIMIT 7, 18446744073709551615 ''
   \<and> dialect (sqlWriter_new MYSQL) = MYSQL
   \<and> createLimitClause (sqlWriter_new MYSQL) = Inr []"
  using createLimitClause_mysql [of "offset 7 (sqlWriter_new MYSQL)"]
    createLimitClause_mysql [of "sqlWriter_new MYSQL"]
  by (simp add: mutator_defs sqlWriter_new_def to_string_u64_7)

subsection \<open>Update and Delete without predicates\<close>

text \<open>
  Claim C8. For an Update or Delete builder whose \<open>whereFields\<close> list is empty, \<open>string()\<close>
  still appends the literal \<open>" WHERE "\<close>: after the table name for Delete, after the \<open>SET\<close>
  clause for Update, for which a render exists as soon as there is a \<open>SET\<close> field. Every
  statement rendered from such a builder ends in the dangling \<open>WHERE\<close> keyword.
\<close>

theorem dangling_where:
  "(queryType s = qt_delete \<and> whereFields s = [] \<longrightarrow>
      string_sql s = Inr (''DELETE FROM '' @ deleteTable s @ '' WHERE ''))
   \<and> (queryType s = qt_update \<and> whereFields s = [] \<longrightarrow>
      string_sql s = (case createSetClause s of
                        Inl e \<Rightarrow> Inl e
                      | Inr setClause \<Rightarrow> Inr (''UPDATE '' @ updateTable s @ '' '' @ setClause @ '' WHERE '')))
   \<and> (queryType s = qt_update \<and> whereFields s = [] \<and> setFields s \<noteq> [] \<longrightarrow>
      (\<exists>setClause. createSetClause s = Inr setClause
         \<and> string_sql s = Inr (''UPDATE '' @ updateTable s @ '' '' @ setClause @ '' WHERE '')))
   \<and> ((queryType s = qt_delete \<or> queryType s = qt_update) \<and> whereFields s = [] \<and> string_sql s = Inr sql
        \<longrightarrow> suffix '' WHERE '' sql)"
  by (auto simp add: string_sql_def createDeleteQuery_def createUpdateQuery_def createWhereClause_def
      createSetClause_def getColumnMap_def suffix_def Let_def split: sum.splits)

theorem dangling_where_witness:
  "queryType (deleteFrom ''t'' (sqlWriter_new MYSQL)) = qt_delete
   \<and> whereFields (deleteFrom ''t'' (sqlWriter_new MYSQL)) = []
   \<and> string_sql (deleteFrom ''t'' (sqlWriter_new MYSQL)) = Inr ''DELETE FROM t WHERE ''
   \<and> queryType (set_value ''a'' (Integer 1) (update ''t'' (sqlWriter_new MYSQL))) = qt_update
   \<and> whereFields (set_value ''a'' (Integer 1) (update ''t'' (sqlWriter_new MYSQL))) = []
   \<and> setFields (set_value ''a'' (Integer 1) (update ''t'' (sqlWriter_new MYSQL))) \<noteq> []
   \<and> string_sql (set_value ''a'' (Integer 1) (update ''t'' (sqlWriter_new MYSQL)))
       = Inr ''UPDATE t SET a = 1 WHERE ''
   \<and> suffix '' WHERE '' ''UPDATE t SET a = 1 WHERE ''"
proof -
  define d where "d = deleteFrom ''t'' (sqlWriter_new MYSQL)"
  define u where "u = set_value ''a'' (Integer 1) (update ''t'' (sqlWriter_new MYSQL))"
  have d: "queryType d = qt_delete" "whereFields d = []" "deleteTable d = ''t''"
    by (simp_all add: d_def mutator_defs sqlWriter_new_def)
  have u: "queryType u = qt_update" "whereFields u = []" "setFields u \<noteq> []" "updateTable u = ''t''"
    by (simp_all add: u_def mutator_defs sqlWriter_new_def)
  have sc: "createSetClause u = Inr ''SET a = 1''"
    by (simp add: u_def createSetClause_def mutator_defs sqlWriter_new_def Let_def to_string_int_def
        decimal.simps digit_char_def)
  note wd = dangling_where [of d "''DELETE FROM t WHERE ''"]
  note wu = dangling_where [of u "''UPDATE t SET a = 1 WHERE ''"]
  have rd: "string_sql d = Inr ''DELETE FROM t WHERE ''"
    using wd d by simp
  have ru: "string_sql u = Inr ''UPDATE t SET a = 1 WHERE ''"
    using wu u sc by simp
  have su: "suffix '' WHERE '' ''UPDATE t SET a = 1 WHERE ''"
    using wu u ru by blast
  from d u rd ru su show ?thesis
    unfolding d_def u_def by blast
qed

subsection \<open>Insert statements\<close>

lemma join_with_Cons: "join_with sep (x # xs) = x @ concat (map (\<lambda>y. sep @ y) xs)"
  by (induction xs arbitrary: x) simp_all

lemma join_with_snoc:
  "join_with sep (xs @ [x]) = join_with sep xs @ (if xs = [] then [] else sep) @ x"
  by (cases xs) (simp_all add: join_with_Cons)

lemma insertColumnsLoop_False:
  "insertColumnsLoop False r xs = r @ concat (map (\<lambda>y. '', '' @ y) xs)"
  by (induction xs arbitrary: r) simp_all

lemma insertColumnsLoop_True: "insertColumnsLoop True r xs = r @ join_with '', '' xs"
  by (cases xs) (simp_all add: insertColumnsLoop_False join_with_Cons)

lemma front_colon: "(front n = CHR '':'') = prefix '':'' n"
  by (cases n) (auto simp add: front_def)

lemma front_qmark: "(front n = CHR ''?'') = prefix ''?'' n"
  by (cases n) (auto simp add: front_def)

lemma insertValuesLoop_False:
  "insertValuesLoop False r xs = r @ concat (map (\<lambda>y. '', '' @ formatValue y) xs)"
proof (induction xs arbitrary: r)
  case Nil
  then show ?case by simp
next
  case (Cons x xs)
  then show ?case by (cases x) (simp_all add: front_colon front_qmark Let_def quote_def)
qed

lemma insertValuesLoop_True: "insertValuesLoop True r xs = r @ join_with '', '' (map formatValue xs)"
proof (cases xs)
  case Nil
  then show ?thesis by simp
next
  case (Cons x ys)
  then show ?thesis
    by (cases x)
      (simp_all add: insertValuesLoop_False join_with_Cons front_colon front_qmark comp_def Let_def quote_def)
qed

lemma insertRowsLoop_False:
  "insertRowsLoop False r xs = r @ concat (map (\<lambda>y. '', '' @ formatRow y) xs)"
  by (induction xs arbitrary: r) (simp_all add: insertValuesLoop_True formatRow_def Let_def)

lemma insertRowsLoop_True: "insertRowsLoop True r xs = r @ join_with '', '' (map formatRow xs)"
  by (cases xs)
    (simp_all add: insertRowsLoop_False insertValuesLoop_True join_with_Cons formatRow_def comp_def Let_def)

text \<open>The three loops of \<open>createInsertQuery\<close> write comma-separated lists.\<close>
lemma createInsertQuery_eq:
  "createInsertQuery s =
     ''INSERT INTO '' @ insertTable s @ ''('' @ join_with '', '' (selectFields s) @ '') VALUES ''
       @ join_with '', '' (map formatRow (valueFields s))"
  by (simp add: createInsertQuery_def Let_def insertColumnsLoop_True insertRowsLoop_True)

lemma insertInto_values_fields:
  assumes "queryType s0 \<noteq> qt_none \<or> (selectFields s0 = [] \<and> valueFields s0 = [])"
  shows "queryType (values_q rows2 (values_q rows1 (insertInto t cols s0))) = qt_insert"
    and "insertTable (values_q rows2 (values_q rows1 (insertInto t cols s0))) = t"
    and "selectFields (values_q rows2 (values_q rows1 (insertInto t cols s0))) = cols"
    and "valueFields (values_q rows2 (values_q rows1 (insertInto t cols s0))) = rows1 @ rows2"
  using assms by (auto simp add: insertInto_def values_q_def resetQuery_def)

lemma to_string_int_digits:
  "to_string_int 1 = ''1''" "to_string_int 2 = ''2''" "to_string_int 3 = ''3''" "to_string_int 4 = ''4''"
  by (simp_all add: to_string_int_def decimal.simps digit_char_def)

text \<open>
  Claim C5. For every Insert builder \<open>string()\<close> returns
  \<open>INSERT INTO <table>(<cols>) VALUES (<row1>), (<row2>), ...\<close>: the column list is the field
  list given to \<open>insertInto\<close>, in order, the value rows appear in the order of the \<open>values()\<close>
  calls, text values are single-quoted, and a bind placeholder gets the prefix \<open>:\<close> unless
  its name starts with \<open>:\<close> or \<open>?\<close>. In particular
  \<open>insertInto("t",{"a","b"})\<close> with the value rows \<open>{1,2}\<close> and \<open>{3,4}\<close> renders exactly
  \<open>INSERT INTO t(a, b) VALUES (1, 2), (3, 4)\<close>, and a row of the text \<open>x\<close> and the bind
  placeholders \<open>n\<close>, \<open>:m\<close> and \<open>?\<close> renders as \<open>('x', :n, :m, ?)\<close>, the apostrophe
  being the character \<open>0x27\<close>.
\<close>

theorem createInsertQuery_format:
  "(queryType s = qt_insert \<longrightarrow>
      string_sql s = Inr (''INSERT INTO '' @ insertTable s @ ''('' @ join_with '', '' (selectFields s)
                          @ '') VALUES '' @ join_with '', '' (map formatRow (valueFields s))))
   \<and> (queryType s0 \<noteq> qt_none \<or> (selectFields s0 = [] \<and> valueFields s0 = []) \<longrightarrow>
      string_sql (values_q rows2 (values_q rows1 (insertInto t cols s0)))
        = Inr (''INSERT INTO '' @ t @ ''('' @ join_with '', '' cols
               @ '') VALUES '' @ join_with '', '' (map formatRow (rows1 @ rows2))))
   \<and> string_sql (values_q [[Integer 1, Integer 2], [Integer 3, Integer 4]]
                   (insertInto ''t'' [''a'', ''b''] (sqlWriter_new MYSQL)))
        = Inr ''INSERT INTO t(a, b) VALUES (1, 2), (3, 4)''
   \<and> string_sql (values_q [[Text ''x'', BindPlaceholder ''n'', BindPlaceholder '':m'', BindPlaceholder ''?'']]
                   (insertInto ''t'' [''a'', ''b'', ''c'', ''d''] (sqlWriter_new MYSQL)))
        = Inr (''INSERT INTO t(a, b, c, d) VALUES ('' @ [CHR 0x27] @ ''x'' @ [CHR 0x27] @ '', :n, :m, ?)'')"
proof (intro conjI impI)
  assume "queryType s = qt_insert"
  then show "string_sql s = Inr (''INSERT INTO '' @ insertTable s @ ''('' @ join_with '', '' (selectFields s)
                          @ '') VALUES '' @ join_with '', '' (map formatRow (valueFields s)))"
    by (simp add: string_sql_def createInsertQuery_eq)
next
  assume a: "queryType s0 \<noteq> qt_none \<or> (selectFields s0 = [] \<and> valueFields s0 = [])"
  show "string_sql (values_q rows2 (values_q rows1 (insertInto t cols s0)))
        = Inr (''INSERT INTO '' @ t @ ''('' @ join_with '', '' cols
               @ '') VALUES '' @ join_with '', '' (map formatRow (rows1 @ rows2)))"
    unfolding string_sql_def createInsertQuery_eq insertInto_values_fields [OF a]
    by simp
next
  have f: "queryType (sqlWriter_new MYSQL) \<noteq> qt_none
           \<or> (selectFields (sqlWriter_new MYSQL) = [] \<and> valueFields (sqlWriter_new MYSQL) = [])"
    by (simp add: sqlWriter_new_def)
  have v: "values_q [[Integer 1, Integer 2], [Integer 3, Integer 4]] (insertInto ''t'' [''a'', ''b''] (sqlWriter_new MYSQL))
           = values_q [] (values_q [[Integer 1, Integer 2], [Integer 3, Integer 4]]
               (insertInto ''t'' [''a'', ''b''] (sqlWriter_new MYSQL)))"
    by (simp add: values_q_def)
  show "string_sql (values_q [[Integer 1, Integer 2], [Integer 3, Integer 4]]
                   (insertInto ''t'' [''a'', ''b''] (sqlWriter_new MYSQL)))
        = Inr ''INSERT INTO t(a, b) VALUES (1, 2), (3, 4)''"
    unfolding string_sql_def createInsertQuery_eq
    by (subst (1 2 3 4) v, unfold insertInto_values_fields [OF f])
      (simp add: formatRow_def to_string_int_digits)
next
  show "string_sql (values_q [[Text ''x'', BindPlaceholder ''n'', BindPlaceholder '':m'', BindPlaceholder ''?'']]
                   (insertInto ''t'' [''a'', ''b'', ''c'', ''d''] (sqlWriter_new MYSQL)))
        = Inr (''INSERT INTO t(a, b, c, d) VALUES ('' @ [CHR 0x27] @ ''x'' @ [CHR 0x27] @ '', :n, :m, ?)'')"
    by (simp add: string_sql_def createInsertQuery_def insertInto_def values_q_def sqlWriter_new_def
        Let_def quote_def front_def)
qed

theorem createInsertQuery_format_witness:
  "queryType (values_q [[Text ''x'', BindPlaceholder ''n'', BindPlaceholder '':m'', BindPlaceholder ''?'']]
               (insertInto ''t'' [''a'', ''b'', ''c'', ''d''] (select (sqlWriter_new MYSQL)))) = qt_insert
   \<and> string_sql (values_q [[Text ''x'', BindPlaceholder ''n'', BindPlaceholder '':m'', BindPlaceholder ''?'']]
               (insertInto ''t'' [''a'', ''b'', ''c'', ''d''] (select (sqlWriter_new MYSQL))))
       = Inr (''INSERT INTO t(a, b, c, d) VALUES ('' @ [CHR 0x27] @ ''x'' @ [CHR 0x27] @ '', :n, :m, ?)'')
   \<and> queryType (select (sqlWriter_new MYSQL)) \<noteq> qt_none
   \<and> string_sql (values_q [[Integer 3]] (values_q [[Integer 1]] (insertInto ''t'' [''a''] (select (sqlWriter_new MYSQL)))))
       = Inr ''INSERT INTO t(a) VALUES (1), (3)''"
proof -
  define S where "S = values_q [[Text ''x'', BindPlaceholder ''n'', BindPlaceholder '':m'', BindPlaceholder ''?'']]
               (insertInto ''t'' [''a'', ''b'', ''c'', ''d''] (select (sqlWriter_new MYSQL)))"
  define s0 where "s0 = select (sqlWriter_new MYSQL)"
  have q: "queryType S = qt_insert" "insertTable S = ''t''" "selectFields S = [''a'', ''b'', ''c'', ''d'']"
    "valueFields S = [[Text ''x'', BindPlaceholder ''n'', BindPlaceholder '':m'', BindPlaceholder ''?'']]"
    by (simp_all add: S_def mutator_defs sqlWriter_new_def)
  have k: "queryType s0 \<noteq> qt_none"
    by (simp add: s0_def select_def)
  note w1 = createInsertQuery_format [of S s0 "[[Integer 3]]" "[[Integer 1]]" "''t''" "[''a'']"]
  have r1: "string_sql S
              = Inr (''INSERT INTO t(a, b, c, d) VALUES ('' @ [CHR 0x27] @ ''x'' @ [CHR 0x27] @ '', :n, :m, ?)'')"
    using w1 q by (simp add: formatRow_def)
  have r2: "string_sql (values_q [[Integer 3]] (values_q [[Integer 1]] (insertInto ''t'' [''a''] s0)))
       = Inr ''INSERT INTO t(a) VALUES (1), (3)''"
    using w1 k by (simp add: formatRow_def to_string_int_digits)
  from q(1) r1 k r2 show ?thesis
    unfolding S_def s0_def by blast
qed

subsection \<open>Aliases in the FROM clause\<close>

lemma fromLoop_False:
  "fromLoop [] False r xs = r @ concat (map (\<lambda>e. '', '' @ fromEntry e) xs)"
  by (induction xs arbitrary: r) (simp_all add: fromEntry_def Let_def)

lemma fromLoop_True: "fromLoop [] True r xs = r @ join_with '', '' (map fromEntry xs)"
  by (cases xs) (simp_all add: fromLoop_False join_with_Cons fromEntry_def Let_def comp_def)

lemma createFromClause_eq:
  "createFromClause s = '' FROM '' @ join_with '', '' (map fromEntry (fromFields s))"
  by (simp add: createFromClause_def Let_def fromLoop_True)

lemma forgetAlias_fields:
  "dialect (forgetAlias s) = dialect s" "queryType (forgetAlias s) = queryType s"
  "selectFields (forgetAlias s) = selectFields s" "joinFields (forgetAlias s) = joinFields s"
  "whereFields (forgetAlias s) = whereFields s" "insertTable (forgetAlias s) = insertTable s"
  "valueFields (forgetAlias s) = valueFields s" "orderByFields (forgetAlias s) = orderByFields s"
  "limitValue (forgetAlias s) = limitValue s" "offsetValue (forgetAlias s) = offsetValue s"
  "countValue (forgetAlias s) = countValue s" "distinct_flag (forgetAlias s) = distinct_flag s"
  "maxFields (forgetAlias s) = maxFields s" "minFields (forgetAlias s) = minFields s"
  "updateTable (forgetAlias s) = updateTable s" "deleteTable (forgetAlias s) = deleteTable s"
  "setFields (forgetAlias s) = setFields s" "databaseMap (forgetAlias s) = databaseMap s"
  "(fromFields (forgetAlias s) = []) = (fromFields s = [])"
  by (simp_all add: forgetAlias_def)

lemma fromEntry_forget: "fromEntry (fst e, if snd e = [] then [] else ''?'') = fromEntry e"
  by (simp add: fromEntry_def)

lemma createFromClause_forgetAlias: "createFromClause (forgetAlias s) = createFromClause s"
  by (simp add: createFromClause_eq forgetAlias_def comp_def fromEntry_forget)

lemma whereLoop_forgetAlias: "whereLoop (forgetAlias s) b r xs = whereLoop s b r xs"
  by (induction s b r xs rule: whereLoop.induct) (simp_all add: getColumnMap_def)

lemma orderByLoop_forgetAlias: "orderByLoop (forgetAlias s) b r xs = orderByLoop s b r xs"
  by (induction s b r xs rule: orderByLoop.induct) (simp_all add: getColumnMap_def)

lemma upsertWhereLoop_forgetAlias: "upsertWhereLoop (forgetAlias s) st xs = upsertWhereLoop s st xs"
  by (induction s st xs rule: upsertWhereLoop.induct) (simp_all add: getColumnMap_def)

lemma upsertSetLoop_forgetAlias: "upsertSetLoop (forgetAlias s) st xs = upsertSetLoop s st xs"
  by (induction s st xs rule: upsertSetLoop.induct) (simp_all add: getColumnMap_def)

lemma upsertUpdateLoop_forgetAlias: "upsertUpdateLoop (forgetAlias s) b r xs = upsertUpdateLoop s b r xs"
  by (induction s b r xs rule: upsertUpdateLoop.induct) (simp_all add: getColumnMap_def)

text \<open>No renderer reads the text of an alias.\<close>
lemma string_sql_forgetAlias: "string_sql (forgetAlias s) = string_sql s"
proof -
  have f: "createFromClause (forgetAlias s) = createFromClause s"
    by (rule createFromClause_forgetAlias)
  have o: "createSelectClause (forgetAlias s) = createSelectClause s"
    "createJoinClause (forgetAlias s) = createJoinClause s"
    "createWhereClause (forgetAlias s) = createWhereClause s"
    "createOrderByClause (forgetAlias s) = createOrderByClause s"
    "createLimitClause (forgetAlias s) = createLimitClause s"
    "createInsertQuery (forgetAlias s) = createInsertQuery s"
    "createUpdateQuery (forgetAlias s) = createUpdateQuery s"
    "createDeleteQuery (forgetAlias s) = createDeleteQuery s"
    "createUpsertQuery (forgetAlias s) = createUpsertQuery s"
    unfolding createSelectClause_def createJoinClause_def createWhereClause_def
      createOrderByClause_def createLimitClause_def createInsertQuery_def createUpdateQuery_def
      createSetClause_def createDeleteQuery_def createUpsertQuery_def getColumnMap_def
      whereLoop_forgetAlias orderByLoop_forgetAlias upsertWhereLoop_forgetAlias
      upsertSetLoop_forgetAlias upsertUpdateLoop_forgetAlias forgetAlias_fields
    by (rule refl)+
  have q: "createSelectQuery (forgetAlias s) = createSelectQuery s"
    unfolding createSelectQuery_def f o forgetAlias_fields by (rule refl)
  show ?thesis
    unfolding string_sql_def q o forgetAlias_fields by (rule refl)
qed

lemma forgetAlias_apply_call:
  "forgetAlias s = forgetAlias s' \<Longrightarrow> forgetAlias (apply_call c s) = forgetAlias (apply_call c s')"
  by (cases s; cases s'; cases c) (simp_all add: forgetAlias_def mutator_defs)

lemma forgetAlias_run:
  "forgetAlias s = forgetAlias s' \<Longrightarrow> forgetAlias (run calls s) = forgetAlias (run calls s')"
proof (induction calls arbitrary: s s')
  case Nil
  then show ?case by (simp add: run_def)
next
  case (Cons c calls)
  from Cons.IH [OF forgetAlias_apply_call [OF Cons.prems, of c]]
  show ?case by (simp add: run_def)
qed

lemma forgetAlias_from_alias:
  "a \<noteq> [] \<Longrightarrow> b \<noteq> [] \<Longrightarrow> forgetAlias (from_alias t a s) = forgetAlias (from_alias t b s)"
  by (simp add: forgetAlias_def from_alias_def)

text \<open>
  Claim C9. After \<open>from(table, alias)\<close> with a non-empty alias the \<open>FROM\<close> clause gains the
  table name and the literal \<open>" AS "\<close> with the empty string behind it, because the local
  \<open>tableAlias\<close> written there is never assigned. The \<open>FROM\<close> clause is built from the table
  names and from which aliases are empty, and the text of the alias never reaches the output
  of \<open>string()\<close>: whatever calls follow, any two non-empty aliases give the same result.
\<close>

theorem from_alias_text_dropped:
  "(a \<noteq> [] \<longrightarrow>
      createFromClause (from_alias t a s)
        = createFromClause s @ (if fromFields s = [] then [] else '', '') @ t @ '' AS '' @ [])
   \<and> createFromClause s = '' FROM '' @ join_with '', '' (map fromEntry (fromFields s))
   \<and> (a \<noteq> [] \<and> b \<noteq> [] \<longrightarrow>
        string_sql (run calls (from_alias t a s)) = string_sql (run calls (from_alias t b s)))
   \<and> string_sql (from_alias ''t'' ''x'' (select_fields [''a''] (sqlWriter_new MYSQL)))
        = Inr ''SELECT a FROM t AS ''"
proof (intro conjI impI)
  assume "a \<noteq> []"
  then show "createFromClause (from_alias t a s)
        = createFromClause s @ (if fromFields s = [] then [] else '', '') @ t @ '' AS '' @ []"
    by (simp add: createFromClause_eq from_alias_def join_with_snoc fromEntry_def)
next
  show "createFromClause s = '' FROM '' @ join_with '', '' (map fromEntry (fromFields s))"
    by (rule createFromClause_eq)
next
  assume ab: "a \<noteq> [] \<and> b \<noteq> []"
  then have "forgetAlias (from_alias t a s) = forgetAlias (from_alias t b s)"
    by (simp add: forgetAlias_from_alias)
  then have "forgetAlias (run calls (from_alias t a s)) = forgetAlias (run calls (from_alias t b s))"
    by (rule forgetAlias_run)
  then have "string_sql (forgetAlias (run calls (from_alias t a s)))
               = string_sql (forgetAlias (run calls (from_alias t b s)))"
    by simp
  then show "string_sql (run calls (from_alias t a s)) = string_sql (run calls (from_alias t b s))"
    by (simp only: string_sql_forgetAlias)
next
  show "string_sql (from_alias ''t'' ''x'' (select_fields [''a''] (sqlWriter_new MYSQL)))
        = Inr ''SELECT a FROM t AS ''"
    by (simp add: string_sql_def createSelectQuery_def createSelectClause_def createFromClause_eq
        createLimitClause_def fromEntry_def mutator_defs sqlWriter_new_def Let_def)
qed

theorem from_alias_text_dropped_witness:
  "''x'' \<noteq> [] \<and> ''other'' \<noteq> []
   \<and> createFromClause (from_alias ''u'' ''x'' (from_alias ''t'' [] (select_fields [''a''] (sqlWriter_new MYSQL))))
       = '' FROM t, u AS ''
   \<and> string_sql (run [CWhere [(''k'', ''='', Integer 1)]]
                   (from_alias ''u'' ''x'' (from_alias ''t'' [] (select_fields [''a''] (sqlWriter_new MYSQL)))))
       = string_sql (run [CWhere [(''k'', ''='', Integer 1)]]
                   (from_alias ''u'' ''other'' (from_alias ''t'' [] (select_fields [''a''] (sqlWriter_new MYSQL)))))"
proof -
  define s where "s = from_alias ''t'' [] (select_fields [''a''] (sqlWriter_new MYSQL))"
  have ne: "''x'' \<noteq> []" "''other'' \<noteq> []" by simp_all
  note w = from_alias_text_dropped [of "''x''" "''u''" s "''other''" "[CWhere [(''k'', ''='', Integer 1)]]"]
  have c0: "createFromClause s = '' FROM t''" "fromFields s \<noteq> []"
    by (simp_all add: s_def createFromClause_def mutator_defs sqlWriter_new_def Let_def)
  have c1: "createFromClause (from_alias ''u'' ''x'' s) = '' FROM t, u AS ''"
    using w ne c0 by simp
  have c2: "string_sql (run [CWhere [(''k'', ''='', Integer 1)]] (from_alias ''u'' ''x'' s))
            = string_sql (run [CWhere [(''k'', ''='', Integer 1)]] (from_alias ''u'' ''other'' s))"
    using w ne by blast
  from ne c1 c2 show ?thesis
    unfolding s_def by blast
qed

subsection \<open>The map file\<close>

lemma index_of_append:
  "c \<notin> set xs \<Longrightarrow> index_of c (xs @ ys) = map_option (\<lambda>i. i + length xs) (index_of c ys)"
  by (induction xs) (auto simp add: option.map_comp comp_def option.map_ident)

text \<open>The positions that the read loop finds on a \<open>TABLE\<close> line and on a \<open>COLUMN\<close> line.\<close>
lemma table_line_parse:
  assumes t: "CHR '']'' \<notin> set t" "CHR ''='' \<notin> set t" and b: "CHR '']'' \<notin> set tbl"
  defines "textLine \<equiv> ''TABLE ['' @ t @ '']=['' @ tbl @ '']''"
  shows "find_first_of textLine CHR '' '' (Some 0) = Some 5"
    and "find_first_of textLine CHR ''='' (Some 0) = Some (8 + length t)"
    and "find_first_of textLine CHR ''['' (Some 0) = Some 6"
    and "find_first_of textLine CHR '']'' (Some 0) = Some (7 + length t)"
    and "find_first_of textLine CHR ''['' (Some (8 + length t)) = Some (9 + length t)"
    and "find_first_of textLine CHR '']'' (Some (8 + length t)) = Some (10 + length t + length tbl)"
proof -
  have split: "textLine = (''TABLE ['' @ t @ '']'') @ (''=['' @ tbl @ '']'')"
    by (simp add: textLine_def)
  have len: "length (''TABLE ['' @ t @ '']'') = 8 + length t" by simp
  have dr: "drop (8 + length t) textLine = ''=['' @ tbl @ '']''"
    unfolding split using len by (metis append_eq_conv_conj)
  show "find_first_of textLine CHR '' '' (Some 0) = Some 5"
    by (simp add: find_first_of_def textLine_def)
  show "find_first_of textLine CHR ''='' (Some 0) = Some (8 + length t)"
    using t by (simp add: find_first_of_def textLine_def index_of_append)
  show "find_first_of textLine CHR ''['' (Some 0) = Some 6"
    by (simp add: find_first_of_def textLine_def)
  show "find_first_of textLine CHR '']'' (Some 0) = Some (7 + length t)"
    using t by (simp add: find_first_of_def textLine_def index_of_append)
  show "find_first_of textLine CHR ''['' (Some (8 + length t)) = Some (9 + length t)"
    by (simp add: find_first_of_def dr)
  show "find_first_of textLine CHR '']'' (Some (8 + length t)) = Some (10 + length t + length tbl)"
    using b by (simp add: find_first_of_def dr index_of_append)
qed

lemma column_line_parse:
  assumes c: "CHR '']'' \<notin> set c" "CHR ''='' \<notin> set c" and b: "CHR '']'' \<notin> set col"
  defines "textLine \<equiv> ''COLUMN ['' @ c @ '']=['' @ col @ '']''"
  shows "find_first_of textLine CHR '' '' (Some 0) = Some 6"
    and "find_first_of textLine CHR ''='' (Some 0) = Some (9 + length c)"
    and "find_first_of textLine CHR ''['' (Some 0) = Some 7"
    and "find_first_of textLine CHR '']'' (Some 0) = Some (8 + length c)"
    and "find_first_of textLine CHR ''['' (Some (9 + length c)) = Some (10 + length c)"
    and "find_first_of textLine CHR '']'' (Some (9 + length c)) = Some (11 + length c + length col)"
proof -
  have split: "textLine = (''COLUMN ['' @ c @ '']'') @ (''=['' @ col @ '']'')"
    by (simp add: textLine_def)
  have len: "length (''COLUMN ['' @ c @ '']'') = 9 + length c" by simp
  have dr: "drop (9 + length c) textLine = ''=['' @ col @ '']''"
    unfolding split using len by (metis append_eq_conv_conj)
  show "find_first_of textLine CHR '' '' (Some 0) = Some 6"
    by (simp add: find_first_of_def textLine_def)
  show "find_first_of textLine CHR ''='' (Some 0) = Some (9 + length c)"
    using c by (simp add: find_first_of_def textLine_def index_of_append)
  show "find_first_of textLine CHR ''['' (Some 0) = Some 7"
    by (simp add: find_first_of_def textLine_def)
  show "find_first_of textLine CHR '']'' (Some 0) = Some (8 + length c)"
    using c by (simp add: find_first_of_def textLine_def index_of_append)
  show "find_first_of textLine CHR ''['' (Some (9 + length c)) = Some (10 + length c)"
    by (simp add: find_first_of_def dr)
  show "find_first_of textLine CHR '']'' (Some (9 + length c)) = Some (11 + length c + length col)"
    using b by (simp add: find_first_of_def dr index_of_append)
qed

lemma trim_TABLE: "trim ''TABLE'' = ''TABLE''" by (simp add: trim_def isspace_def)
lemma trim_COLUMN: "trim ''COLUMN'' = ''COLUMN''" by (simp add: trim_def isspace_def)
lemma trim_END: "trim ''END'' = ''END''" by (simp add: trim_def isspace_def)

lemma processLine_TABLE:
  assumes t: "t \<noteq> []" "CHR '']'' \<notin> set t" "CHR ''='' \<notin> set t" and b: "tbl \<noteq> []" "CHR '']'' \<notin> set tbl"
    and st: "currentTable st = []" "databaseMap (writer st) t \<noteq> None"
  shows "processLine ifn (''TABLE ['' @ t @ '']=['' @ tbl @ '']'') st =
           Inr (st\<lparr> szToken1 := t, szToken2 := tbl, currentTable := t,
                    writer := setTableMap t tbl (writer st) \<rparr>)"
proof -
  let ?l = "''TABLE ['' @ t @ '']=['' @ tbl @ '']''"
  note p = table_line_parse [OF t(2,3) b(2)]
  have cmd: "trim (substr ?l 0 (Some 5)) = TABLE"
    by (simp add: substr_def trim_TABLE TABLE_def)
  have tok1: "tokenText ?l (Some 6) (Some (7 + length t)) = t"
    by (simp add: tokenText_def substr_def)
  have d2: "drop (10 + length t) ?l = tbl @ '']''"
  proof -
    have "?l = (''TABLE ['' @ t @ '']=['') @ (tbl @ '']'')" by simp
    moreover have "length (''TABLE ['' @ t @ '']=['') = 10 + length t" by simp
    ultimately show ?thesis by (metis append_eq_conv_conj)
  qed
  have tok2: "tokenText ?l (Some (9 + length t)) (Some (10 + length t + length tbl)) = tbl"
    using d2 by (simp add: tokenText_def substr_def add.commute)
  have skip: "1 < length ?l \<and> ?l ! 0 \<noteq> CHR '';''" by simp
  show ?thesis
    unfolding processLine_def Let_def p cmd tok1 tok2
    using skip t b st
    by (simp add: TABLE_def COLUMN_def END_def tableDirective_def Let_def)
qed

lemma processLine_COLUMN:
  assumes c: "c \<noteq> []" "CHR '']'' \<notin> set c" "CHR ''='' \<notin> set c" and b: "col \<noteq> []" "CHR '']'' \<notin> set col"
    and st: "currentTable st \<noteq> []" "databaseMap (writer st) (currentTable st) = Some td"
      "columnData td c \<noteq> None"
  shows "processLine ifn (''COLUMN ['' @ c @ '']=['' @ col @ '']'') st =
           Inr (st\<lparr> szToken1 := c, szToken2 := col,
                    writer := setColumnMap (currentTable st) c col (writer st) \<rparr>)"
proof -
  let ?l = "''COLUMN ['' @ c @ '']=['' @ col @ '']''"
  note p = column_line_parse [OF c(2,3) b(2)]
  have cmd: "trim (substr ?l 0 (Some 6)) = COLUMN"
    by (simp add: substr_def trim_COLUMN COLUMN_def)
  have tok1: "tokenText ?l (Some 7) (Some (8 + length c)) = c"
    by (simp add: tokenText_def substr_def)
  have d2: "drop (11 + length c) ?l = col @ '']''"
  proof -
    have "?l = (''COLUMN ['' @ c @ '']=['') @ (col @ '']'')" by simp
    moreover have "length (''COLUMN ['' @ c @ '']=['') = 11 + length c" by simp
    ultimately show ?thesis by (metis append_eq_conv_conj)
  qed
  have tok2: "tokenText ?l (Some (10 + length c)) (Some (11 + length c + length col)) = col"
    using d2 by (simp add: tokenText_def substr_def add.commute)
  have skip: "1 < length ?l \<and> ?l ! 0 \<noteq> CHR '';''" by simp
  show ?thesis
    unfolding processLine_def Let_def p cmd tok1 tok2
    using skip c b st
    by (simp add: TABLE_def COLUMN_def END_def columnDirective_def Let_def)
qed

lemma processLine_END:
  "processLine ifn ''END'' st = Inr (st\<lparr> szToken2 := [], currentTable := [] \<rparr>)"
  by (simp add: processLine_def Let_def find_first_of_def substr_def trim_END END_def COLUMN_def TABLE_def)

lemma readLoop_three:
  assumes "processLine ifn a st0 = Inr st1"
    and "processLine ifn b (st1\<lparr> lineNumber := lineNumber st1 + 1 \<rparr>) = Inr st2"
    and "processLine ifn c (st2\<lparr> lineNumber := lineNumber st2 + 1 \<rparr>) = Inr st3"
  shows "readLoop ifn st0 [a, b, c] = Inr (st3\<lparr> lineNumber := lineNumber st3 + 1 \<rparr>)"
  using assms by simp

text \<open>The well-formed three-line file sets the two mappings and nothing else.\<close>
lemma readMapFile_wellformed:
  assumes t: "t \<noteq> []" "CHR '']'' \<notin> set t" "CHR ''='' \<notin> set t" and tb: "tbl \<noteq> []" "CHR '']'' \<notin> set tbl"
    and c: "c \<noteq> []" "CHR '']'' \<notin> set c" "CHR ''='' \<notin> set c" and cb: "col \<noteq> []" "CHR '']'' \<notin> set col"
    and fs: "fs ifn = Some [''TABLE ['' @ t @ '']=['' @ tbl @ '']'', ''COLUMN ['' @ c @ '']=['' @ col @ '']'', ''END'']"
    and s: "databaseMap s t = Some td" "columnData td c = Some cd"
  shows "readMapFile fs ifn s = Inr (setColumnMap t c col (setTableMap t tbl s))"
proof -
  define st0 where "st0 = mapLoop_init s"
  define st1 where "st1 = st0\<lparr> szToken1 := t, szToken2 := tbl, currentTable := t,
                               writer := setTableMap t tbl (writer st0) \<rparr>"
  define st1n where "st1n = st1\<lparr> lineNumber := lineNumber st1 + 1 \<rparr>"
  define st2 where "st2 = st1n\<lparr> szToken1 := c, szToken2 := col,
                                writer := setColumnMap (currentTable st1n) c col (writer st1n) \<rparr>"
  define st2n where "st2n = st2\<lparr> lineNumber := lineNumber st2 + 1 \<rparr>"
  define st3 where "st3 = st2n\<lparr> szToken2 := [], currentTable := [] \<rparr>"
  have l1: "processLine ifn (''TABLE ['' @ t @ '']=['' @ tbl @ '']'') st0 = Inr st1"
    unfolding st1_def by (rule processLine_TABLE [OF t tb]) (simp_all add: st0_def mapLoop_init_def s)
  have db1: "databaseMap (writer st1n) (currentTable st1n) = Some (td\<lparr> tableName := (t, tbl) \<rparr>)"
    using s by (simp add: st1n_def st1_def st0_def mapLoop_init_def setTableMap_def)
  have l2: "processLine ifn (''COLUMN ['' @ c @ '']=['' @ col @ '']'') st1n = Inr st2"
    unfolding st2_def
    by (rule processLine_COLUMN [OF c cb _ db1]) (simp_all add: st1n_def st1_def t s)
  have l3: "processLine ifn ''END'' st2n = Inr st3"
    unfolding st3_def by (rule processLine_END)
  have l2': "processLine ifn (''COLUMN ['' @ c @ '']=['' @ col @ '']'') (st1\<lparr> lineNumber := lineNumber st1 + 1 \<rparr>) = Inr st2"
    using l2 by (simp only: st1n_def)
  have l3': "processLine ifn ''END'' (st2\<lparr> lineNumber := lineNumber st2 + 1 \<rparr>) = Inr st3"
    using l3 by (simp only: st2n_def)
  note loop = readLoop_three [OF l1 l2' l3']
  have w: "writer (st3\<lparr> lineNumber := lineNumber st3 + 1 \<rparr>) = setColumnMap t c col (setTableMap t tbl s)"
    by (simp add: st3_def st2n_def st2_def st1n_def st1_def st0_def mapLoop_init_def)
  have "readMapFile fs ifn s =
          (case readLoop ifn st0 [''TABLE ['' @ t @ '']=['' @ tbl @ '']'', ''COLUMN ['' @ c @ '']=['' @ col @ '']'', ''END''] of
             Inl e \<Rightarrow> Inl e | Inr st \<Rightarrow> Inr (writer st))"
    by (simp only: readMapFile_def fs st0_def option.case)
  then show ?thesis
    by (simp only: loop w sum.case)
qed

lemma mappings_after_set:
  assumes "databaseMap s t = Some td" "columnData td c = Some cd"
  shows "tableMapOf (setColumnMap t c col (setTableMap t tbl s)) t = Some tbl"
    and "columnMapOf (setColumnMap t c col (setTableMap t tbl s)) t c = Some col"
  using assms by (simp_all add: tableMapOf_def columnMapOf_def setColumnMap_def setTableMap_def)

lemma declared_after_create: "declared t c (snd (createColumn t c (snd (createTable t s0))))"
  by (auto simp add: declared_def createColumn_def createTable_def Let_def split: option.splits)

lemma columnDirective_lineNumber:
  "columnDirective ifn st = Inr st' \<Longrightarrow> lineNumber st' = lineNumber st"
  by (auto simp add: columnDirective_def split: if_splits)

lemma tableDirective_lineNumber:
  "tableDirective ifn st = Inr st' \<Longrightarrow> lineNumber st' = lineNumber st"
  by (auto simp add: tableDirective_def Let_def split: if_splits)

lemma processLine_lineNumber:
  "processLine ifn textLine st = Inr st' \<Longrightarrow> lineNumber st' = lineNumber st"
  unfolding processLine_def Let_def
  by (auto split: if_splits sum.splits dest!: columnDirective_lineNumber tableDirective_lineNumber)

text \<open>\<open>lineNumber\<close> counts the lines read.\<close>
lemma readLoop_lineNumber:
  "readLoop ifn st xs = Inr st' \<Longrightarrow> lineNumber st' = lineNumber st + int (length xs)"
proof (induction xs arbitrary: st)
  case Nil
  then show ?case by simp
next
  case (Cons x xs)
  from Cons.prems obtain st1 where p: "processLine ifn x st = Inr st1"
    and r: "readLoop ifn (st1\<lparr> lineNumber := lineNumber st1 + 1 \<rparr>) xs = Inr st'"
    by (auto split: sum.splits)
  from Cons.IH [OF r] processLine_lineNumber [OF p] show ?case by simp
qed

lemma readLoop_append:
  "readLoop ifn st (xs @ ys) =
     (case readLoop ifn st xs of Inl e \<Rightarrow> Inl e | Inr st' \<Rightarrow> readLoop ifn st' ys)"
  by (induction xs arbitrary: st) (simp_all split: sum.splits)

lemma processLine_column_outside:
  assumes "isColumnLine textLine" and "currentTable st = []"
  shows "processLine ifn textLine st =
           Inl (clogSyntax ifn (lineNumber st) '' - COLUMN directive found, but no TABLE directive in force.'',
                RUNTIME_ERROR ''MAPPED SQL WRITER: Syntax Error.'' (Some E_SQLWRITER_SYNTAXERROR))
         \<or> processLine ifn textLine st =
           Inl ([], RUNTIME_ERROR (''Error in SQL map file:'' @ ifn @ ''Syntax error on line: ''
                                   @ to_string_int (lineNumber st) @ '' - Needs at least one token.'') None)"
  using assms unfolding isColumnLine_def processLine_def Let_def
  by (simp add: columnDirective_def COLUMN_def END_def)

lemma readLoop_column_outside:
  assumes pre: "readLoop ifn st0 pre = Inr st" and scope: "currentTable st = []"
    and col: "isColumnLine textLine"
  shows "readLoop ifn st0 (pre @ textLine # post) =
           Inl (clogSyntax ifn (lineNumber st0 + int (length pre)) '' - COLUMN directive found, but no TABLE directive in force.'',
                RUNTIME_ERROR ''MAPPED SQL WRITER: Syntax Error.'' (Some E_SQLWRITER_SYNTAXERROR))
         \<or> readLoop ifn st0 (pre @ textLine # post) =
           Inl ([], RUNTIME_ERROR (''Error in SQL map file:'' @ ifn @ ''Syntax error on line: ''
                                   @ to_string_int (lineNumber st0 + int (length pre)) @ '' - Needs at least one token.'') None)"
proof -
  have n: "lineNumber st = lineNumber st0 + int (length pre)"
    by (rule readLoop_lineNumber [OF pre])
  have "readLoop ifn st0 (pre @ textLine # post) = readLoop ifn st (textLine # post)"
    by (simp add: readLoop_append pre)
  with processLine_column_outside [OF col scope, of ifn] n show ?thesis
    by auto
qed

text \<open>
  Claim C6. \<open>readMapFile\<close> raises a syntax error that reports the file path and the 1-based
  line number when a \<open>COLUMN\<close> directive appears while no \<open>TABLE\<close> scope is open: if the
  lines before it are read without error and leave no table current, the load fails at that
  line, either with the syntax-error code after writing to \<open>std::clog\<close> the text
  \<open>Error in SQL map file: \<close>, the path, a line end, the text \<open>Syntax command on line: \<close>, the
  line number, the text that names the \<open>COLUMN\<close> directive without a \<open>TABLE\<close> directive, and a
  line end,
  or, when the line has no bracketed token, with the message that carries path and line
  number (for the file \<open>map.txt\<close> with a comment line and then the bare line \<open>COLUMN\<close>, the
  message names \<open>map.txt\<close> and line 2). The line number is the number of lines before it plus one (the counter is a C++
  \<open>int\<close>, so the file is taken to have fewer than \<open>2^31\<close> lines). And the sequence
  \<open>TABLE [t]=[tbl]\<close>, \<open>COLUMN [c]=[col]\<close>, \<open>END\<close>, with \<open>t\<close> and \<open>c\<close> declared (as
  \<open>createTable\<close> and \<open>createColumn\<close> do) and the four names well-formed tokens (not empty, no
  \<open>]\<close>, and no \<open>=\<close> in the logical names), is read without error and records \<open>tbl\<close> and
  \<open>col\<close> as the physical names of \<open>t\<close> and \<open>c\<close>.
\<close>

theorem readMapFile_column_scope_and_wellformed:
  "(fs ifn = Some (pre @ textLine # post) \<and> readLoop ifn (mapLoop_init s) pre = Inr st
      \<and> currentTable st = [] \<and> isColumnLine textLine \<and> length pre < 2147483647 \<longrightarrow>
      readMapFile fs ifn s =
        Inl ([LogText ''Error in SQL map file: '', LogPath ifn, LogEndl,
              LogText ''Syntax command on line: '', LogInt (int (length pre) + 1),
              LogText '' - COLUMN directive found, but no TABLE directive in force.'', LogEndl],
             RUNTIME_ERROR ''MAPPED SQL WRITER: Syntax Error.'' (Some E_SQLWRITER_SYNTAXERROR))
      \<or> readMapFile fs ifn s =
        Inl ([], RUNTIME_ERROR (''Error in SQL map file:'' @ ifn @ ''Syntax error on line: ''
                                @ to_string_int (int (length pre) + 1)
                                @ '' - Needs at least one token.'') None))
   \<and> (t \<noteq> [] \<and> CHR '']'' \<notin> set t \<and> CHR ''='' \<notin> set t \<and> tbl \<noteq> [] \<and> CHR '']'' \<notin> set tbl
      \<and> c \<noteq> [] \<and> CHR '']'' \<notin> set c \<and> CHR ''='' \<notin> set c \<and> col \<noteq> [] \<and> CHR '']'' \<notin> set col
      \<and> fs ifn = Some [''TABLE ['' @ t @ '']=['' @ tbl @ '']'', ''COLUMN ['' @ c @ '']=['' @ col @ '']'', ''END'']
      \<and> declared t c s \<longrightarrow>
      (\<exists>w. readMapFile fs ifn s = Inr w \<and> tableMapOf w t = Some tbl \<and> columnMapOf w t c = Some col))
   \<and> declared t c (snd (createColumn t c (snd (createTable t s0))))
   \<and> readMapFile [''map.txt'' \<mapsto> [''; comment'', ''COLUMN'']] ''map.txt'' (sqlWriter_new MYSQL)
       = Inl ([], RUNTIME_ERROR
                ''Error in SQL map file:map.txtSyntax error on line: 2 - Needs at least one token.'' None)"
proof (intro conjI impI)
  assume a: "fs ifn = Some (pre @ textLine # post) \<and> readLoop ifn (mapLoop_init s) pre = Inr st
      \<and> currentTable st = [] \<and> isColumnLine textLine \<and> length pre < 2147483647"
  then have pre: "readLoop ifn (mapLoop_init s) pre = Inr st" and scope: "currentTable st = []"
    and col: "isColumnLine textLine" and fs: "fs ifn = Some (pre @ textLine # post)"
    by simp_all
  have n: "lineNumber (mapLoop_init s) + int (length pre) = int (length pre) + 1"
    by (simp add: mapLoop_init_def)
  from readLoop_column_outside [OF pre scope col, of post]
  show "readMapFile fs ifn s =
        Inl ([LogText ''Error in SQL map file: '', LogPath ifn, LogEndl,
              LogText ''Syntax command on line: '', LogInt (int (length pre) + 1),
              LogText '' - COLUMN directive found, but no TABLE directive in force.'', LogEndl],
             RUNTIME_ERROR ''MAPPED SQL WRITER: Syntax Error.'' (Some E_SQLWRITER_SYNTAXERROR))
      \<or> readMapFile fs ifn s =
        Inl ([], RUNTIME_ERROR (''Error in SQL map file:'' @ ifn @ ''Syntax error on line: ''
                                @ to_string_int (int (length pre) + 1)
                                @ '' - Needs at least one token.'') None)"
    unfolding readMapFile_def fs n clogSyntax_def by auto
next
  assume a: "t \<noteq> [] \<and> CHR '']'' \<notin> set t \<and> CHR ''='' \<notin> set t \<and> tbl \<noteq> [] \<and> CHR '']'' \<notin> set tbl
      \<and> c \<noteq> [] \<and> CHR '']'' \<notin> set c \<and> CHR ''='' \<notin> set c \<and> col \<noteq> [] \<and> CHR '']'' \<notin> set col
      \<and> fs ifn = Some [''TABLE ['' @ t @ '']=['' @ tbl @ '']'', ''COLUMN ['' @ c @ '']=['' @ col @ '']'', ''END'']
      \<and> declared t c s"
  then obtain td cd where s: "databaseMap s t = Some td" "columnData td c = Some cd"
    by (auto simp add: declared_def split: option.splits)
  from a have r: "readMapFile fs ifn s = Inr (setColumnMap t c col (setTableMap t tbl s))"
    by (intro readMapFile_wellformed [OF _ _ _ _ _ _ _ _ _ _ _ s]) simp_all
  with mappings_after_set [OF s]
  show "\<exists>w. readMapFile fs ifn s = Inr w \<and> tableMapOf w t = Some tbl \<and> columnMapOf w t c = Some col"
    by blast
next
  show "declared t c (snd (createColumn t c (snd (createTable t s0))))"
    by (rule declared_after_create)
next
  show "readMapFile [''map.txt'' \<mapsto> [''; comment'', ''COLUMN'']] ''map.txt'' (sqlWriter_new MYSQL)
       = Inl ([], RUNTIME_ERROR
                ''Error in SQL map file:map.txtSyntax error on line: 2 - Needs at least one token.'' None)"
    by (simp add: readMapFile_def mapLoop_init_def processLine_def Let_def find_first_of_def substr_def
        trim_COLUMN END_def to_string_int_def decimal.simps digit_char_def)
qed

theorem readMapFile_column_scope_and_wellformed_witness:
  "readLoop ''map.txt'' (mapLoop_init (sqlWriter_new MYSQL)) [''; comment'', [], ''TABLE'']
     = Inl ([], RUNTIME_ERROR ''Error in SQL map file:map.txtSyntax error on line: 3 - Needs at least one token.'' None)
   \<and> readLoop ''map.txt'' (mapLoop_init (sqlWriter_new MYSQL)) [''; comment'', []]
     = Inr ((mapLoop_init (sqlWriter_new MYSQL))\<lparr> lineNumber := 3 \<rparr>)
   \<and> isColumnLine ''COLUMN [c]=[col]''
   \<and> readMapFile [''map.txt'' \<mapsto> [''; comment'', [], ''COLUMN [c]=[col]'', ''END'']] ''map.txt''
        (sqlWriter_new MYSQL)
     = Inl ([LogText ''Error in SQL map file: '', LogPath ''map.txt'', LogEndl,
              LogText ''Syntax command on line: '', LogInt 3,
              LogText '' - COLUMN directive found, but no TABLE directive in force.'', LogEndl],
            RUNTIME_ERROR ''MAPPED SQL WRITER: Syntax Error.'' (Some E_SQLWRITER_SYNTAXERROR))
   \<and> declared ''t'' ''c'' (snd (createColumn ''t'' ''c'' (snd (createTable ''t'' (sqlWriter_new MYSQL)))))
   \<and> (\<exists>w. readMapFile [''map.txt'' \<mapsto> [''TABLE [t]=[tbl]'', ''COLUMN [c]=[col]'', ''END'']] ''map.txt''
             (snd (createColumn ''t'' ''c'' (snd (createTable ''t'' (sqlWriter_new MYSQL))))) = Inr w
          \<and> tableMapOf w ''t'' = Some ''tbl'' \<and> columnMapOf w ''t'' ''c'' = Some ''col'')"
proof -
  define s0 where "s0 = sqlWriter_new MYSQL"
  define s where "s = snd (createColumn ''t'' ''c'' (snd (createTable ''t'' s0)))"
  define fsA :: "string \<rightharpoonup> string list"
    where "fsA = [''map.txt'' \<mapsto> [''; comment'', [], ''COLUMN [c]=[col]'', ''END'']]"
  define fsB :: "string \<rightharpoonup> string list"
    where "fsB = [''map.txt'' \<mapsto> [''TABLE [t]=[tbl]'', ''COLUMN [c]=[col]'', ''END'']]"
  define st where "st = (mapLoop_init s0)\<lparr> lineNumber := 3 \<rparr>"
  have skip1: "processLine ''map.txt'' ''; comment'' x = Inr x" for x
    by (simp add: processLine_def)
  have skip2: "processLine ''map.txt'' [] x = Inr x" for x
    by (simp add: processLine_def)
  have pre: "readLoop ''map.txt'' (mapLoop_init s0) [''; comment'', []] = Inr st"
    by (simp add: skip1 skip2 st_def mapLoop_init_def)
  have scope: "currentTable st = []"
    by (simp add: st_def mapLoop_init_def)
  have col: "isColumnLine ''COLUMN [c]=[col]''"
    by (simp add: isColumnLine_def find_first_of_def substr_def trim_COLUMN COLUMN_def)
  have fA: "fsA ''map.txt'' = Some ([''; comment'', []] @ ''COLUMN [c]=[col]'' # [''END''])"
    by (simp add: fsA_def)
  have len: "length [''; comment'', ([]::string)] < 2147483647" by simp
  have fB: "fsB ''map.txt'' = Some [''TABLE ['' @ ''t'' @ '']=['' @ ''tbl'' @ '']'',
                                    ''COLUMN ['' @ ''c'' @ '']=['' @ ''col'' @ '']'', ''END'']"
    by (simp add: fsB_def)
  have tk: "''t'' \<noteq> [] \<and> CHR '']'' \<notin> set ''t'' \<and> CHR ''='' \<notin> set ''t'' \<and> ''tbl'' \<noteq> []
      \<and> CHR '']'' \<notin> set ''tbl'' \<and> ''c'' \<noteq> [] \<and> CHR '']'' \<notin> set ''c'' \<and> CHR ''='' \<notin> set ''c''
      \<and> ''col'' \<noteq> [] \<and> CHR '']'' \<notin> set ''col''"
    by simp
  note wA = readMapFile_column_scope_and_wellformed
      [of fsA "''map.txt''" "[''; comment'', []]" "''COLUMN [c]=[col]''" "[''END'']" s0 st
          "''t''" "''tbl''" "''c''" "''col''" s0]
  note wB = readMapFile_column_scope_and_wellformed
      [of fsB "''map.txt''" "[]" "[]" "[]" s st "''t''" "''tbl''" "''c''" "''col''" s0]
  have dec: "declared ''t'' ''c'' s"
    unfolding s_def using wB by blast
  have resB: "\<exists>w. readMapFile fsB ''map.txt'' s = Inr w
          \<and> tableMapOf w ''t'' = Some ''tbl'' \<and> columnMapOf w ''t'' ''c'' = Some ''col''"
    using wB tk fB dec by blast
  have disj: "readMapFile fsA ''map.txt'' s0 =
        Inl ([LogText ''Error in SQL map file: '', LogPath ''map.txt'', LogEndl,
              LogText ''Syntax command on line: '', LogInt (int (length [''; comment'', ([]::string)]) + 1),
              LogText '' - COLUMN directive found, but no TABLE directive in force.'', LogEndl],
             RUNTIME_ERROR ''MAPPED SQL WRITER: Syntax Error.'' (Some E_SQLWRITER_SYNTAXERROR))
      \<or> readMapFile fsA ''map.txt'' s0 =
        Inl ([], RUNTIME_ERROR (''Error in SQL map file:'' @ ''map.txt'' @ ''Syntax error on line: ''
                                @ to_string_int (int (length [''; comment'', ([]::string)]) + 1)
                                @ '' - Needs at least one token.'') None)"
    using wA fA pre scope col len by blast
  have direct: "readMapFile fsA ''map.txt'' s0 =
        Inl ([LogText ''Error in SQL map file: '', LogPath ''map.txt'', LogEndl,
              LogText ''Syntax command on line: '', LogInt 3,
              LogText '' - COLUMN directive found, but no TABLE directive in force.'', LogEndl],
             RUNTIME_ERROR ''MAPPED SQL WRITER: Syntax Error.'' (Some E_SQLWRITER_SYNTAXERROR))"
    by (simp add: readMapFile_def fsA_def skip1 skip2 mapLoop_init_def s0_def processLine_def Let_def
        find_first_of_def substr_def trim_COLUMN COLUMN_def END_def columnDirective_def tokenText_def
        clogSyntax_def)
  have resA: "readMapFile fsA ''map.txt'' s0 =
        Inl ([LogText ''Error in SQL map file: '', LogPath ''map.txt'', LogEndl,
              LogText ''Syntax command on line: '', LogInt 3,
              LogText '' - COLUMN directive found, but no TABLE directive in force.'', LogEndl],
             RUNTIME_ERROR ''MAPPED SQL WRITER: Syntax Error.'' (Some E_SQLWRITER_SYNTAXERROR))"
    using disj direct by simp
  have first: "readLoop ''map.txt'' (mapLoop_init s0) [''; comment'', [], ''TABLE'']
     = Inl ([], RUNTIME_ERROR ''Error in SQL map file:map.txtSyntax error on line: 3 - Needs at least one token.'' None)"
    by (simp add: skip1 skip2 mapLoop_init_def processLine_def Let_def find_first_of_def substr_def
        trim_TABLE END_def to_string_int_def decimal.simps digit_char_def)
  from first pre col resA dec resB show ?thesis
    unfolding s_def s0_def fsA_def fsB_def st_def by blast
qed

end
